theory Spec2Isabelle
  imports Main "HOL-Library.AList"
begin

section \<open>JavaScript values\<close>

text \<open>
  The client (\<^verbatim>\<open>lib/moncoind-rpc.js\<close>) works on untyped JSON values: the arguments of
  its methods, the request bodies it builds and the responses the daemon returns.
  An object is a property list in insertion order; a parsed JSON object has distinct keys.
  Numbers are the integers (a JavaScript number that is not an integer, \<^verbatim>\<open>NaN\<close> and the
  infinities have no representation; \<^verbatim>\<open>NaN\<close> appears only as the \<open>None\<close> result of a
  conversion), and they are the integers that a JavaScript number holds exactly and prints
  in plain decimal digits: those of magnitude below \<open>2 ^ 53\<close>. Strings are UTF-8 byte strings.
\<close>

datatype json =
    JUndefined
  | JNull
  | JBool bool
  | JNum int
  | JStr string
  | JArr "json list"
  | JObj "(string \<times> json) list"

type_synonym obj = "(string \<times> json) list"

text \<open>
  JavaScript has the classes \<^verbatim>\<open>Error\<close> and \<^verbatim>\<open>TypeError\<close> only; the client always
  throws \<^verbatim>\<open>new Error(message)\<close>. The constructors below record which check of the
  source raised the error, after the error kinds of the specification:
  \<open>ArgumentError\<close> for the checks on a method's arguments, \<open>RPCError\<close> for the
  \<^verbatim>\<open>error\<close> field of a JSON-RPC envelope, \<open>StatusError\<close> for the checks on a
  response's \<^verbatim>\<open>status\<close> and expected keys, \<open>UsageError\<close> for the empty method name
  in \<^verbatim>\<open>_get\<close> and \<^verbatim>\<open>_post\<close>. \<open>TypeError\<close> is the engine's own error (a property
  read on \<^verbatim>\<open>undefined\<close> or \<^verbatim>\<open>null\<close>, a call of something that is not a function),
  \<open>NetworkError\<close> is whatever the HTTP library rejects with.
\<close>

datatype error =
    ArgumentError string
  | RPCError string
  | StatusError string
  | UsageError string
  | TypeError
  | NetworkError string

text \<open>
  A method either throws synchronously, before it has a promise to return, or returns a
  promise that is rejected or resolved.
\<close>

datatype outcome = Thrown error | Rejected error | Resolved json

subsection \<open>Truthiness and property access\<close>

fun truthy :: "json \<Rightarrow> bool" where
  "truthy JUndefined = False"
| "truthy JNull = False"
| "truthy (JBool b) = b"
| "truthy (JNum n) = (n \<noteq> 0)"
| "truthy (JStr s) = (s \<noteq> [])"
| "truthy (JArr xs) = True"
| "truthy (JObj kv) = True"

definition lookup :: "obj \<Rightarrow> string \<Rightarrow> json" where
  "lookup kv k = (case map_of kv k of None \<Rightarrow> JUndefined | Some v \<Rightarrow> v)"

text \<open>
  \<^verbatim>\<open>v.k\<close> and \<^verbatim>\<open>v['k']\<close>, for the property names the client reads (none of them is a
  property of a built-in prototype): a \<^verbatim>\<open>TypeError\<close> on \<^verbatim>\<open>undefined\<close> and \<^verbatim>\<open>null\<close>,
  \<^verbatim>\<open>undefined\<close> on the other primitives and on arrays, the own property of an object.
\<close>

fun getprop :: "json \<Rightarrow> string \<Rightarrow> error + json" where
  "getprop JUndefined k = Inl TypeError"
| "getprop JNull k = Inl TypeError"
| "getprop (JObj kv) k = Inr (lookup kv k)"
| "getprop v k = Inr JUndefined"

fun isArray :: "json \<Rightarrow> bool" where
  "isArray (JArr xs) = True"
| "isArray v = False"

definition bind :: "error + 'a \<Rightarrow> ('a \<Rightarrow> error + 'b) \<Rightarrow> error + 'b" where
  "bind m f = (case m of Inl e \<Rightarrow> Inl e | Inr x \<Rightarrow> f x)"

text \<open>\<^verbatim>\<open>xs.forEach(x => tmp.push(f(x)))\<close>: the first exception ends the loop.\<close>

fun mapM :: "('a \<Rightarrow> error + 'b) \<Rightarrow> 'a list \<Rightarrow> error + 'b list" where
  "mapM f [] = Inr []"
| "mapM f (x # xs) =
     (case f x of
        Inl e \<Rightarrow> Inl e
      | Inr y \<Rightarrow> (case mapM f xs of Inl e \<Rightarrow> Inl e | Inr ys \<Rightarrow> Inr (y # ys)))"

text \<open>\<^verbatim>\<open>v.forEach\<close> exists on arrays only.\<close>

fun elements :: "json \<Rightarrow> error + json list" where
  "elements (JArr xs) = Inr xs"
| "elements v = Inl TypeError"

subsection \<open>Strings and numbers\<close>

definition digit_chars :: string where
  "digit_chars = ''0123456789abcdefghijklmnopqrstuvwxyz''"

definition upper_chars :: string where
  "upper_chars = ''ABCDEFGHIJKLMNOPQRSTUVWXYZ''"

definition lower_chars :: string where
  "lower_chars = ''abcdefghijklmnopqrstuvwxyz''"

definition lower_char :: "char \<Rightarrow> char" where
  "lower_char c = (case map_of (zip upper_chars lower_chars) c of None \<Rightarrow> c | Some d \<Rightarrow> d)"

text \<open>
  \<^verbatim>\<open>s.toLowerCase()\<close> on the UTF-8 bytes of \<open>s\<close>. The ASCII capitals are mapped, and so
  is the Kelvin sign (U+212A, the bytes E2 84 AA), the one character outside ASCII whose
  lower case is an ASCII letter. Every other byte is left as it is: the result is
  JavaScript's as far as its comparison with an ASCII string goes, which is the one use
  the client makes of it.
\<close>

definition kelvin_sign :: string where
  "kelvin_sign = [CHR 0xE2, CHR 0x84, CHR 0xAA]"

fun toLowerCase :: "string \<Rightarrow> string" where
  "toLowerCase (a # b # c # s) =
     (if [a, b, c] = kelvin_sign then CHR ''k'' # toLowerCase s
      else lower_char a # toLowerCase (b # c # s))"
| "toLowerCase (a # s) = lower_char a # toLowerCase s"
| "toLowerCase [] = []"

text \<open>\<^verbatim>\<open>v.toLowerCase()\<close>: a method of strings only.\<close>

fun toLowerCase_of :: "json \<Rightarrow> error + string" where
  "toLowerCase_of (JStr s) = Inr (toLowerCase s)"
| "toLowerCase_of v = Inl TypeError"

text \<open>The value of a digit in a radix, \<open>None\<close> when the character is no digit of it.\<close>

fun index_of :: "char \<Rightarrow> string \<Rightarrow> nat option" where
  "index_of c [] = None"
| "index_of c (d # ds) = (if c = d then Some 0 else map_option Suc (index_of c ds))"

definition digit_val :: "nat \<Rightarrow> char \<Rightarrow> nat option" where
  "digit_val radix c =
     (case index_of (lower_char c) digit_chars of
        None \<Rightarrow> None
      | Some d \<Rightarrow> if d < radix then Some d else None)"

definition is_digit :: "nat \<Rightarrow> char \<Rightarrow> bool" where
  "is_digit radix c = (digit_val radix c \<noteq> None)"

definition digits_value :: "nat \<Rightarrow> string \<Rightarrow> nat" where
  "digits_value radix ds = foldl (\<lambda>acc c. acc * radix + (case digit_val radix c of None \<Rightarrow> 0 | Some d \<Rightarrow> d)) 0 ds"

text \<open>
  The white space and line terminators of JavaScript, as UTF-8 byte sequences: U+0009 to
  U+000D, U+0020, U+00A0, U+1680, U+2000 to U+200A, U+2028, U+2029, U+202F, U+205F, U+3000
  and U+FEFF.
\<close>

definition white_space :: "string list" where
  "white_space =
     [[CHR 0x09], [CHR 0x0A], [CHR 0x0B], [CHR 0x0C], [CHR 0x0D], [CHR 0x20],
      [CHR 0xC2, CHR 0xA0],
      [CHR 0xE1, CHR 0x9A, CHR 0x80],
      [CHR 0xE2, CHR 0x80, CHR 0x80], [CHR 0xE2, CHR 0x80, CHR 0x81],
      [CHR 0xE2, CHR 0x80, CHR 0x82], [CHR 0xE2, CHR 0x80, CHR 0x83],
      [CHR 0xE2, CHR 0x80, CHR 0x84], [CHR 0xE2, CHR 0x80, CHR 0x85],
      [CHR 0xE2, CHR 0x80, CHR 0x86], [CHR 0xE2, CHR 0x80, CHR 0x87],
      [CHR 0xE2, CHR 0x80, CHR 0x88], [CHR 0xE2, CHR 0x80, CHR 0x89],
      [CHR 0xE2, CHR 0x80, CHR 0x8A],
      [CHR 0xE2, CHR 0x80, CHR 0xA8], [CHR 0xE2, CHR 0x80, CHR 0xA9],
      [CHR 0xE2, CHR 0x80, CHR 0xAF],
      [CHR 0xE2, CHR 0x81, CHR 0x9F],
      [CHR 0xE3, CHR 0x80, CHR 0x80],
      [CHR 0xEF, CHR 0xBB, CHR 0xBF]]"

text \<open>The rest of a string after the first of the sequences that it starts with.\<close>

fun strip_one :: "string list \<Rightarrow> string \<Rightarrow> string option" where
  "strip_one [] s = None"
| "strip_one (q # qs) s =
     (if q \<noteq> [] \<and> take (length q) s = q then Some (drop (length q) s) else strip_one qs s)"

function strip_all :: "string list \<Rightarrow> string \<Rightarrow> string" where
  "strip_all qs s = (case strip_one qs s of None \<Rightarrow> s | Some r \<Rightarrow> strip_all qs r)"
  by pat_completeness auto
termination
proof (relation "measure (\<lambda>(qs, s). length s)")
  show "wf (measure (\<lambda>(qs, s). length s))" by simp
next
  fix qs :: "string list" and s r :: string
  assume "strip_one qs s = Some r"
  then have "length r < length s"
  proof (induction qs)
    case Nil
    then show ?case by simp
  next
    case (Cons q qs)
    show ?case
    proof (cases "q \<noteq> [] \<and> take (length q) s = q")
      case True
      then have "s \<noteq> []" by auto
      with True Cons.prems show ?thesis by auto
    next
      case False
      with Cons show ?thesis by auto
    qed
  qed
  then show "((qs, r), (qs, s)) \<in> measure (\<lambda>(qs, s). length s)" by simp
qed

declare strip_all.simps [simp del]

definition trimStart :: "string \<Rightarrow> string" where
  "trimStart s = strip_all white_space s"

definition trimEnd :: "string \<Rightarrow> string" where
  "trimEnd s = rev (strip_all (map rev white_space) (rev s))"

definition has_hex_prefix :: "string \<Rightarrow> bool" where
  "has_hex_prefix s = (take 2 s = ''0x'' \<or> take 2 s = ''0X'')"

text \<open>
  \<^verbatim>\<open>parseInt(s)\<close> on a string, without a radix argument: leading white space is
  skipped, a sign is read, the radix is 16 after \<^verbatim>\<open>0x\<close> and 10 otherwise, and the longest
  prefix of digits is the value; \<^verbatim>\<open>NaN\<close> (here \<open>None\<close>) when there is no digit.
\<close>

definition parseInt_string :: "string \<Rightarrow> int option" where
  "parseInt_string s =
     (let s1 = trimStart s;
          neg = (take 1 s1 = ''-'');
          s2 = (if take 1 s1 = ''-'' \<or> take 1 s1 = ''+'' then drop 1 s1 else s1);
          radix = (if has_hex_prefix s2 then 16 else 10);
          s3 = (if has_hex_prefix s2 then drop 2 s2 else s2);
          ds = takeWhile (is_digit radix) s3
      in if ds = [] then None
         else Some (if neg then - int (digits_value radix ds) else int (digits_value radix ds)))"

fun dec_nat :: "nat \<Rightarrow> string" where
  "dec_nat n = (if n < 10 then [digit_chars ! n] else dec_nat (n div 10) @ [digit_chars ! (n mod 10)])"

declare dec_nat.simps [simp del]

definition dec_int :: "int \<Rightarrow> string" where
  "dec_int i = (if i < 0 then CHR ''-'' # dec_nat (nat (- i)) else dec_nat (nat i))"

fun join :: "string \<Rightarrow> string list \<Rightarrow> string" where
  "join sep [] = []"
| "join sep [s] = s"
| "join sep (s # ss) = s @ sep @ join sep ss"

text \<open>
  \<^verbatim>\<open>String(v)\<close>: an array is its elements joined by commas, \<^verbatim>\<open>null\<close> and \<^verbatim>\<open>undefined\<close>
  elements being empty; a plain object is \<^verbatim>\<open>[object Object]\<close>.
\<close>

fun ToString :: "json \<Rightarrow> string" where
  "ToString JUndefined = ''undefined''"
| "ToString JNull = ''null''"
| "ToString (JBool b) = (if b then ''true'' else ''false'')"
| "ToString (JNum n) = dec_int n"
| "ToString (JStr s) = s"
| "ToString (JArr xs) =
     join '','' (map (\<lambda>x. if x = JUndefined \<or> x = JNull then [] else ToString x) xs)"
| "ToString (JObj kv) = ''[object Object]''"

definition parseInt :: "json \<Rightarrow> int option" where
  "parseInt v = parseInt_string (ToString v)"

definition trim :: "string \<Rightarrow> string" where
  "trim s = trimEnd (trimStart s)"

definition radix_literal :: "nat \<Rightarrow> string \<Rightarrow> int option" where
  "radix_literal radix ds =
     (if ds \<noteq> [] \<and> list_all (is_digit radix) ds then Some (int (digits_value radix ds)) else None)"

text \<open>
  \<^verbatim>\<open>Number(s)\<close> on a string, for the literals that denote an integer: the empty string
  is 0; a decimal literal may carry a sign; \<^verbatim>\<open>0x\<close>, \<^verbatim>\<open>0o\<close> and \<^verbatim>\<open>0b\<close> literals may
  not. A literal with a fraction or an exponent, and \<^verbatim>\<open>Infinity\<close>, denote numbers outside
  \<^typ>\<open>int\<close> and come out as \<open>None\<close> like every string that is no numeric literal: a
  block count or an array entry given as such a string is outside the model.
\<close>

definition StringToNumber :: "string \<Rightarrow> int option" where
  "StringToNumber s =
     (let t = trim s in
      if t = [] then Some 0
      else if take 2 t = ''0x'' \<or> take 2 t = ''0X'' then radix_literal 16 (drop 2 t)
      else if take 2 t = ''0o'' \<or> take 2 t = ''0O'' then radix_literal 8 (drop 2 t)
      else if take 2 t = ''0b'' \<or> take 2 t = ''0B'' then radix_literal 2 (drop 2 t)
      else if take 1 t = ''-'' then map_option uminus (radix_literal 10 (drop 1 t))
      else if take 1 t = ''+'' then radix_literal 10 (drop 1 t)
      else radix_literal 10 t)"

text \<open>\<^verbatim>\<open>Number(v)\<close>; \<open>None\<close> is \<^verbatim>\<open>NaN\<close>.\<close>

fun ToNumber :: "json \<Rightarrow> int option" where
  "ToNumber JUndefined = None"
| "ToNumber JNull = Some 0"
| "ToNumber (JBool b) = Some (if b then 1 else 0)"
| "ToNumber (JNum n) = Some n"
| "ToNumber (JStr s) = StringToNumber s"
| "ToNumber (JArr xs) = StringToNumber (ToString (JArr xs))"
| "ToNumber (JObj kv) = None"

definition isNaN :: "json \<Rightarrow> bool" where
  "isNaN v = (ToNumber v = None)"

subsection \<open>Buffers\<close>

text \<open>
  Node's \<^verbatim>\<open>Buffer.from(v).toString('hex')\<close>. A string gives its bytes; an array gives one
  byte per entry, the entry converted to a number and reduced modulo 256 (\<^verbatim>\<open>NaN\<close> is 0).
  On a plain object \<^verbatim>\<open>Buffer.from\<close> first evaluates \<^verbatim>\<open>value.valueOf && value.valueOf()\<close>:
  an own \<^verbatim>\<open>valueOf\<close> property of a parsed object is no function, so a truthy one is a
  \<^verbatim>\<open>TypeError\<close>, and a falsy one other than \<^verbatim>\<open>null\<close> is converted in the object's place.
  Otherwise the object is read as an array when it has a \<^verbatim>\<open>length\<close> (an empty buffer
  when the length is no number) or is the JSON form \<^verbatim>\<open>{type: 'Buffer', data: [...]}\<close>.
  Every other value is a \<^verbatim>\<open>TypeError\<close>.
\<close>

definition ToUint8 :: "json \<Rightarrow> nat" where
  "ToUint8 v = (case ToNumber v of None \<Rightarrow> 0 | Some n \<Rightarrow> nat (n mod 256))"

definition fromObject :: "obj \<Rightarrow> error + nat list" where
  "fromObject kv =
     (if lookup kv ''length'' \<noteq> JUndefined then
        (case lookup kv ''length'' of
           JNum n \<Rightarrow> Inr (map (\<lambda>i. ToUint8 (lookup kv (dec_nat i))) [0 ..< nat n])
         | _ \<Rightarrow> Inr [])
      else if lookup kv ''type'' = JStr ''Buffer'' \<and> isArray (lookup kv ''data'') then
        (case lookup kv ''data'' of JArr xs \<Rightarrow> Inr (map ToUint8 xs) | _ \<Rightarrow> Inl TypeError)
      else Inl TypeError)"

fun Buffer_from :: "json \<Rightarrow> error + nat list" where
  "Buffer_from (JStr s) = Inr (map of_char s)"
| "Buffer_from (JArr xs) = Inr (map ToUint8 xs)"
| "Buffer_from (JObj kv) =
     (case map_of kv ''valueOf'' of
        None \<Rightarrow> fromObject kv
      | Some v \<Rightarrow>
          if truthy v then Inl TypeError
          else if v = JNull \<or> v = JUndefined then fromObject kv
          else if v = JStr [] then Inr []
          else Inl TypeError)"
| "Buffer_from v = Inl TypeError"

definition hex_byte :: "nat \<Rightarrow> string" where
  "hex_byte b = [digit_chars ! (b div 16 mod 16), digit_chars ! (b mod 16)]"

definition toString_hex :: "nat list \<Rightarrow> string" where
  "toString_hex bs = concat (map hex_byte bs)"

definition to_hex :: "json \<Rightarrow> error + json" where
  "to_hex v = bind (Buffer_from v) (\<lambda>bs. Inr (JStr (toString_hex bs)))"

section \<open>The client\<close>

subsection \<open>Objects, requests and the world\<close>

text \<open>
  The objects a caller can share with the client live in a store: the client itself
  (\<^verbatim>\<open>this\<close>, with its configuration as properties) and the options objects the caller
  passes. An argument is a value or a reference to such an object; a value that is an
  object or array literal is an object nobody else holds. \<open>sent\<close> is the list of the
  requests handed to the HTTP library so far.
\<close>

type_synonym addr = nat

datatype arg = Val json | Ref addr

record request =
  verb :: string
  protocol :: string
  host :: json
  port :: json
  path :: string
  body :: "json option"
  timeout :: json
  forever :: json
  user_agent :: json

text \<open>
  The HTTP library (\<^verbatim>\<open>request-promise-native\<close>, with \<^verbatim>\<open>json: true\<close>): it answers a
  request with the parsed response or rejects.
\<close>

type_synonym transport = "request \<Rightarrow> error + json"

record world =
  heap :: "addr \<Rightarrow> obj"
  next_addr :: addr
  sent :: "request list"

definition field :: "world \<Rightarrow> addr \<Rightarrow> string \<Rightarrow> json" where
  "field w a k = lookup (heap w a) k"

definition set_field :: "addr \<Rightarrow> string \<Rightarrow> json \<Rightarrow> world \<Rightarrow> world" where
  "set_field a k v w = w\<lparr>heap := (heap w)(a := AList.update k v (heap w a))\<rparr>"

definition alloc :: "obj \<Rightarrow> world \<Rightarrow> addr \<times> world" where
  "alloc kv w =
     (next_addr w, w\<lparr>heap := (heap w)(next_addr w := kv), next_addr := Suc (next_addr w)\<rparr>)"

text \<open>
  The own named properties of a literal: those of an object; an array has indices and a
  length only, which the client never reads from an options object.
\<close>

fun own_props :: "json \<Rightarrow> obj" where
  "own_props (JObj kv) = kv"
| "own_props v = []"

text \<open>
  \<^verbatim>\<open>opts = opts || {}\<close>: a falsy argument is replaced by a new empty object. The result is
  a reference, or a truthy primitive.
\<close>

fun is_literal :: "json \<Rightarrow> bool" where
  "is_literal (JObj kv) = True"
| "is_literal (JArr xs) = True"
| "is_literal v = False"

definition or_empty :: "arg \<Rightarrow> world \<Rightarrow> arg \<times> world" where
  "or_empty opts w =
     (case opts of
        Ref a \<Rightarrow> (Ref a, w)
      | Val v \<Rightarrow>
          if truthy v \<and> \<not> is_literal v then (Val v, w)
          else (let (a, w') = alloc (own_props v) w in (Ref a, w')))"

definition arg_get :: "world \<Rightarrow> arg \<Rightarrow> string \<Rightarrow> json" where
  "arg_get w opts k = (case opts of Ref a \<Rightarrow> field w a k | Val v \<Rightarrow> JUndefined)"

text \<open>
  \<^verbatim>\<open>opts.k = v\<close>. The file is in strict mode, where an assignment to a property of a
  primitive is a \<^verbatim>\<open>TypeError\<close>.
\<close>

definition arg_set :: "arg \<Rightarrow> string \<Rightarrow> json \<Rightarrow> world \<Rightarrow> error + world" where
  "arg_set opts k v w = (case opts of Ref a \<Rightarrow> Inr (set_field a k v w) | Val p \<Rightarrow> Inl TypeError)"

text \<open>\<^verbatim>\<open>response.k = v\<close> on a response.\<close>

fun set_prop :: "json \<Rightarrow> string \<Rightarrow> json \<Rightarrow> error + json" where
  "set_prop (JObj kv) k v = Inr (JObj (AList.update k v kv))"
| "set_prop (JArr xs) k v = Inr (JArr xs)"
| "set_prop r k v = Inl TypeError"

subsection \<open>Requests\<close>

definition send :: "transport \<Rightarrow> request \<Rightarrow> world \<Rightarrow> outcome \<times> world" where
  "send tr req w =
     ((case tr req of Inl e \<Rightarrow> Rejected e | Inr v \<Rightarrow> Resolved v), w\<lparr>sent := sent w @ [req]\<rparr>)"

text \<open>\<^verbatim>\<open>promise.then(f)\<close>: an exception in \<open>f\<close> rejects the promise.\<close>

fun andThen :: "outcome \<times> world \<Rightarrow> (json \<Rightarrow> error + json) \<Rightarrow> outcome \<times> world" where
  "andThen (Resolved v, w) f = ((case f v of Inl e \<Rightarrow> Rejected e | Inr r \<Rightarrow> Resolved r), w)"
| "andThen (Rejected e, w) f = (Rejected e, w)"
| "andThen (Thrown e, w) f = (Thrown e, w)"

definition mk_request :: "world \<Rightarrow> addr \<Rightarrow> string \<Rightarrow> string \<Rightarrow> json option \<Rightarrow> request" where
  "mk_request w this v p b =
     \<lparr>verb = v,
      protocol = (if truthy (field w this ''ssl'') then ''https'' else ''http''),
      host = field w this ''host'',
      port = field w this ''port'',
      path = p,
      body = b,
      timeout = field w this ''timeout'',
      forever = field w this ''keepAlive'',
      user_agent = field w this ''userAgent''\<rparr>"

definition rpc_get :: "addr \<Rightarrow> string \<Rightarrow> transport \<Rightarrow> world \<Rightarrow> outcome \<times> world" where
  "rpc_get this method tr w =
     (if method = [] then (Thrown (UsageError ''no method supplied''), w)
      else send tr (mk_request w this ''GET'' method None) w)"

text \<open>
  In \<^verbatim>\<open>_rawPost\<close> the two guards read \<^verbatim>\<open>throw new new Error('...')()\<close>: the inner
  error is used as a constructor, which is a \<^verbatim>\<open>TypeError\<close>.
\<close>

definition rpc_rawPost :: "addr \<Rightarrow> string \<Rightarrow> json \<Rightarrow> transport \<Rightarrow> world \<Rightarrow> outcome \<times> world" where
  "rpc_rawPost this endpoint b tr w =
     (if endpoint = [] then (Thrown TypeError, w)
      else if b = JUndefined then (Thrown TypeError, w)
      else send tr (mk_request w this ''POST'' endpoint (Some b)) w)"

text \<open>The message of \<^verbatim>\<open>new Error(m)\<close>: empty when \<open>m\<close> is \<^verbatim>\<open>undefined\<close>.\<close>

definition Error_message :: "json \<Rightarrow> string" where
  "Error_message m = (if m = JUndefined then [] else ToString m)"

definition post_response :: "json \<Rightarrow> error + json" where
  "post_response response =
     bind (getprop response ''error'') (\<lambda>e.
       if truthy e then bind (getprop e ''message'') (\<lambda>m. Inl (RPCError (Error_message m)))
       else getprop response ''result'')"

definition rpc_post :: "addr \<Rightarrow> string \<Rightarrow> json \<Rightarrow> transport \<Rightarrow> world \<Rightarrow> outcome \<times> world" where
  "rpc_post this method params tr w =
     (if method = [] then (Thrown (UsageError ''no method supplied''), w)
      else
        let params' = (if truthy params then params else JObj []);
            b = JObj [(''jsonrpc'', JStr ''2.0''), (''method'', JStr method), (''params'', params')]
        in andThen (rpc_rawPost this ''json_rpc'' b tr w) post_response)"

subsection \<open>The constructor\<close>

text \<open>
  \<^verbatim>\<open>package.json\<close> is not part of the sources: the name and version of the package, from
  which the default user agent is formatted, are parameters.
\<close>

definition or_default :: "json \<Rightarrow> json \<Rightarrow> json" where
  "or_default v d = (if truthy v then v else d)"

definition MONCoind :: "string \<Rightarrow> string \<Rightarrow> arg \<Rightarrow> world \<Rightarrow> addr \<times> world" where
  "MONCoind pkg_name pkg_version opts w =
     (let (opts', w1) = or_empty opts w in
      alloc
        [(''host'', or_default (arg_get w1 opts' ''host'') (JStr ''127.0.0.1'')),
         (''port'', or_default (arg_get w1 opts' ''port'') (JNum 12898)),
         (''timeout'', or_default (arg_get w1 opts' ''timeout'') (JNum 2000)),
         (''ssl'', or_default (arg_get w1 opts' ''ssl'') (JBool False)),
         (''userAgent'',
            or_default (arg_get w1 opts' ''userAgent'') (JStr (pkg_name @ ''/'' @ pkg_version))),
         (''keepAlive'',
            (if arg_get w1 opts' ''keepAlive'' \<noteq> JUndefined then arg_get w1 opts' ''keepAlive''
             else JBool True))]
        w1)"

subsection \<open>Response rules\<close>

text \<open>\<^verbatim>\<open>!response.k1 || !response.k2 || ...\<close>, read from left to right.\<close>

fun any_falsy :: "json \<Rightarrow> string list \<Rightarrow> error + bool" where
  "any_falsy r [] = Inr False"
| "any_falsy r (k # ks) =
     bind (getprop r k) (\<lambda>v. if \<not> truthy v then Inr True else any_falsy r ks)"

text \<open>\<^verbatim>\<open>response.status.toLowerCase() !== 'ok'\<close>\<close>

definition status_not_ok :: "json \<Rightarrow> error + bool" where
  "status_not_ok response =
     bind (getprop response ''status'') (\<lambda>s.
     bind (toLowerCase_of s) (\<lambda>l. Inr (l \<noteq> ''ok'')))"

definition globalIndexes_response :: "json \<Rightarrow> error + json" where
  "globalIndexes_response response =
     bind (status_not_ok response) (\<lambda>bad.
       if bad then Inl (StatusError ''Transaction not found'')
       else getprop response ''o_indexes'')"

definition globalIndexesForRange_response :: "json \<Rightarrow> error + json" where
  "globalIndexesForRange_response response =
     bind (any_falsy response [''status'', ''indexes'']) (\<lambda>missing.
       if missing then Inl (StatusError ''Missing indexes or status key'')
       else bind (status_not_ok response) (\<lambda>bad.
         if bad then Inl (StatusError ''Status is not OK'')
         else getprop response ''indexes''))"

definition transactionsStatus_response :: "json \<Rightarrow> error + json" where
  "transactionsStatus_response response =
     bind (any_falsy response
             [''status'', ''transactionsInPool'', ''transactionsInBlock'', ''transactionsUnknown''])
       (\<lambda>missing.
       if missing then Inl (StatusError ''Missing status of transactions key'')
       else bind (status_not_ok response) (\<lambda>bad.
         if bad then Inl (StatusError ''Status is not OK'')
         else
           bind (getprop response ''transactionsInPool'') (\<lambda>p.
           bind (getprop response ''transactionsInBlock'') (\<lambda>b.
           bind (getprop response ''transactionsUnknown'') (\<lambda>u.
           Inr (JObj [(''transactionsInPool'', p), (''transactionsInBlock'', b),
                      (''transactionsUnknown'', u)]))))))"

definition walletSyncData_response :: "json \<Rightarrow> error + json" where
  "walletSyncData_response response =
     bind (any_falsy response [''status'', ''items'']) (\<lambda>missing.
       if missing then Inl (StatusError ''Missing items or status key'')
       else bind (status_not_ok response) (\<lambda>bad.
         if bad then Inl (StatusError ''Status is not OK'')
         else Inr response))"

text \<open>
  The object \<^verbatim>\<open>{hash: tx['transactionPrefixInfo.txHash'],
  prefix: tx['transactionPrefixInfo.txPrefix']}\<close> of \<^verbatim>\<open>blocksLite\<close> and \<^verbatim>\<open>poolChanges\<close>.
\<close>

definition prefix_pair :: "json \<Rightarrow> error + json" where
  "prefix_pair txn =
     bind (getprop txn ''transactionPrefixInfo.txHash'') (\<lambda>h.
     bind (getprop txn ''transactionPrefixInfo.txPrefix'') (\<lambda>p.
     Inr (JObj [(''hash'', h), (''prefix'', p)])))"

text \<open>The body of the outer \<^verbatim>\<open>forEach\<close> of \<^verbatim>\<open>blocksLite\<close>: the object pushed for an item.\<close>

definition lite_item :: "json \<Rightarrow> error + json" where
  "lite_item item =
     bind (getprop item ''blockShortInfo.txPrefixes'') (\<lambda>ps.
     bind (elements ps) (\<lambda>txns.
     bind (mapM prefix_pair txns) (\<lambda>transactions.
     bind (getprop item ''blockShortInfo.block'') (\<lambda>b.
     bind (to_hex b) (\<lambda>h.
     bind (getprop item ''blockShortInfo.blockId'') (\<lambda>i.
     Inr (JObj [(''block'', h), (''hash'', i), (''transactions'', JArr transactions)])))))))"

definition blocksLite_response :: "json \<Rightarrow> error + json" where
  "blocksLite_response response =
     bind (getprop response ''items'') (\<lambda>items.
     bind (elements items) (\<lambda>xs.
     bind (mapM lite_item xs) (\<lambda>tmp.
     set_prop response ''items'' (JArr tmp))))"

definition poolChanges_response :: "json \<Rightarrow> error + json" where
  "poolChanges_response response =
     bind (getprop response ''addedTxs'') (\<lambda>added.
     bind (elements added) (\<lambda>xs.
     bind (mapM prefix_pair xs) (\<lambda>tmp.
     set_prop response ''addedTxs'' (JArr tmp))))"

definition rawBlocks_response :: "json \<Rightarrow> error + json" where
  "rawBlocks_response response =
     bind (getprop response ''response.blocks'') (\<lambda>b.
     bind (getprop response ''response.current_height'') (\<lambda>c.
     bind (getprop response ''response.start_height'') (\<lambda>s.
     bind (getprop response ''response.status'') (\<lambda>st.
     Inr (JObj [(''blocks'', b), (''current_height'', c), (''start_height'', s),
                (''status'', st)])))))"

text \<open>
  \<^verbatim>\<open>delete response.tx['']\<close>, reached only when \<^verbatim>\<open>response.tx['']\<close> is truthy, that is
  when the response and its \<^verbatim>\<open>tx\<close> are objects.
\<close>

definition delete_tx_empty :: "json \<Rightarrow> json" where
  "delete_tx_empty response =
     (case response of
        JObj rkv \<Rightarrow>
          (case lookup rkv ''tx'' of
             JObj tkv \<Rightarrow> JObj (AList.update ''tx'' (JObj (AList.delete [] tkv)) rkv)
           | _ \<Rightarrow> response)
      | _ \<Rightarrow> response)"

definition transaction_response :: "json \<Rightarrow> error + json" where
  "transaction_response response =
     bind (getprop response ''tx'') (\<lambda>tx.
       if truthy tx then
         bind (getprop tx []) (\<lambda>e.
           if truthy e then Inr (delete_tx_empty response) else Inr response)
       else Inr response)"

subsection \<open>The methods\<close>

definition block :: "addr \<Rightarrow> json \<Rightarrow> transport \<Rightarrow> world \<Rightarrow> outcome \<times> world" where
  "block this hash tr w =
     (if \<not> truthy hash then (Thrown (ArgumentError ''must specify hash''), w)
      else andThen (rpc_post this ''f_block_json'' (JObj [(''hash'', hash)]) tr w)
             (\<lambda>response. getprop response ''block''))"

definition blockCount :: "addr \<Rightarrow> transport \<Rightarrow> world \<Rightarrow> outcome \<times> world" where
  "blockCount this tr w =
     andThen (rpc_post this ''getblockcount'' JUndefined tr w)
       (\<lambda>response. getprop response ''count'')"

definition blockHeaderByHash :: "addr \<Rightarrow> json \<Rightarrow> transport \<Rightarrow> world \<Rightarrow> outcome \<times> world" where
  "blockHeaderByHash this hash tr w =
     (if \<not> truthy hash then (Thrown (ArgumentError ''must specify hash''), w)
      else andThen (rpc_post this ''getblockheaderbyhash'' (JObj [(''hash'', hash)]) tr w)
             (\<lambda>response. getprop response ''block_head''))"

definition blockHeaderByHeight :: "addr \<Rightarrow> json \<Rightarrow> transport \<Rightarrow> world \<Rightarrow> outcome \<times> world" where
  "blockHeaderByHeight this height tr w =
     (if height = JUndefined then (Thrown (ArgumentError ''must specify height''), w)
      else andThen (rpc_post this ''getblockheaderbyheight'' (JObj [(''height'', height)]) tr w)
             (\<lambda>response. getprop response ''block_header''))"

definition blockShortHeaders :: "addr \<Rightarrow> json \<Rightarrow> transport \<Rightarrow> world \<Rightarrow> outcome \<times> world" where
  "blockShortHeaders this height tr w =
     (if height = JUndefined then (Thrown (ArgumentError ''must specify height''), w)
      else andThen (rpc_post this ''f_blocks_list_json'' (JObj [(''height'', height)]) tr w)
             (\<lambda>response. getprop response ''blocks''))"

text \<open>\<^verbatim>\<open>if (opts.k === undefined) opts.k = d\<close>\<close>

definition default_field :: "arg \<Rightarrow> string \<Rightarrow> json \<Rightarrow> world \<Rightarrow> error + world" where
  "default_field opts k d w = (if arg_get w opts k = JUndefined then arg_set opts k d w else Inr w)"

text \<open>\<^verbatim>\<open>if (!opts.k) opts.k = d\<close>\<close>

definition default_falsy_field :: "arg \<Rightarrow> string \<Rightarrow> json \<Rightarrow> world \<Rightarrow> error + world" where
  "default_falsy_field opts k d w = (if \<not> truthy (arg_get w opts k) then arg_set opts k d w else Inr w)"

definition blocksDetailed :: "addr \<Rightarrow> arg \<Rightarrow> transport \<Rightarrow> world \<Rightarrow> outcome \<times> world" where
  "blocksDetailed this opts tr w =
     (let (opts', w0) = or_empty opts w in
      if \<not> isArray (arg_get w0 opts' ''blockHashes'')
      then (Thrown (ArgumentError ''must supply an array of block hashes''), w0)
      else
        (case default_field opts' ''timestamp'' (JNum 0) w0 of
           Inl e \<Rightarrow> (Thrown e, w0)
         | Inr w1 \<Rightarrow>
        (case default_field opts' ''blockCount'' (JNum 100) w1 of
           Inl e \<Rightarrow> (Thrown e, w1)
         | Inr w2 \<Rightarrow>
             rpc_rawPost this ''queryblocksdetailed''
               (JObj [(''blockIds'', arg_get w2 opts' ''blockHashes''),
                      (''timestamp'', arg_get w2 opts' ''timestamp''),
                      (''blockCount'', arg_get w2 opts' ''blockCount'')])
               tr w2)))"

definition blocksLite :: "addr \<Rightarrow> arg \<Rightarrow> transport \<Rightarrow> world \<Rightarrow> outcome \<times> world" where
  "blocksLite this opts tr w =
     (let (opts', w0) = or_empty opts w in
      if \<not> isArray (arg_get w0 opts' ''blockHashes'')
      then (Thrown (ArgumentError ''must supply an array of block hashes''), w0)
      else
        (case default_field opts' ''timestamp'' (JNum 0) w0 of
           Inl e \<Rightarrow> (Thrown e, w0)
         | Inr w1 \<Rightarrow>
             andThen
               (rpc_rawPost this ''queryblockslite''
                  (JObj [(''blockIds'', arg_get w1 opts' ''blockHashes''),
                         (''timestamp'', arg_get w1 opts' ''timestamp'')])
                  tr w1)
               blocksLite_response))"

definition blockTemplate :: "addr \<Rightarrow> json \<Rightarrow> json \<Rightarrow> transport \<Rightarrow> world \<Rightarrow> outcome \<times> world" where
  "blockTemplate this walletAddress reserveSize tr w =
     (if reserveSize = JUndefined then (Thrown (ArgumentError ''must specify reserveSize''), w)
      else if \<not> truthy walletAddress
      then (Thrown (ArgumentError ''must specify walletAddress''), w)
      else rpc_post this ''getblocktemplate''
             (JObj [(''reserve_size'', reserveSize), (''wallet_address'', walletAddress)]) tr w)"

definition fee :: "addr \<Rightarrow> transport \<Rightarrow> world \<Rightarrow> outcome \<times> world" where
  "fee this tr w = rpc_get this ''fee'' tr w"

definition globalIndexes :: "addr \<Rightarrow> json \<Rightarrow> transport \<Rightarrow> world \<Rightarrow> outcome \<times> world" where
  "globalIndexes this transactionHash tr w =
     (if transactionHash = JUndefined
      then (Thrown (ArgumentError ''must supply a transaction hash''), w)
      else andThen (rpc_rawPost this ''get_o_indexes'' (JObj [(''txid'', transactionHash)]) tr w)
             globalIndexes_response)"

definition globalIndexesForRange ::
  "addr \<Rightarrow> json \<Rightarrow> json \<Rightarrow> transport \<Rightarrow> world \<Rightarrow> outcome \<times> world" where
  "globalIndexesForRange this startHeight endHeight tr w =
     (if startHeight = JUndefined then (Thrown (ArgumentError ''Must specify start height''), w)
      else if endHeight = JUndefined then (Thrown (ArgumentError ''Must specify end height''), w)
      else andThen
             (rpc_rawPost this ''get_global_indexes_for_range''
                (JObj [(''startHeight'', startHeight), (''endHeight'', endHeight)]) tr w)
             globalIndexesForRange_response)"

definition height :: "addr \<Rightarrow> transport \<Rightarrow> world \<Rightarrow> outcome \<times> world" where
  "height this tr w = rpc_get this ''height'' tr w"

definition info :: "addr \<Rightarrow> transport \<Rightarrow> world \<Rightarrow> outcome \<times> world" where
  "info this tr w = rpc_get this ''info'' tr w"

definition lastBlockHeader :: "addr \<Rightarrow> transport \<Rightarrow> world \<Rightarrow> outcome \<times> world" where
  "lastBlockHeader this tr w =
     andThen (rpc_post this ''getlastblockheader'' JUndefined tr w)
       (\<lambda>response. getprop response ''block_header'')"

definition peers :: "addr \<Rightarrow> transport \<Rightarrow> world \<Rightarrow> outcome \<times> world" where
  "peers this tr w = rpc_get this ''peers'' tr w"

definition poolChanges :: "addr \<Rightarrow> json \<Rightarrow> json \<Rightarrow> transport \<Rightarrow> world \<Rightarrow> outcome \<times> world" where
  "poolChanges this tailBlockHash knownTransactionHashes tr w =
     (if tailBlockHash = JUndefined
      then (Thrown (ArgumentError ''must supply a tail block hash''), w)
      else if \<not> isArray knownTransactionHashes
      then (Thrown (ArgumentError ''must supply an array of known transaction hashes''), w)
      else andThen
             (rpc_rawPost this ''get_pool_changes_lite''
                (JObj [(''tailBlockId'', tailBlockHash), (''knownTxsIds'', knownTransactionHashes)])
                tr w)
             poolChanges_response)"

definition randomOutputs :: "addr \<Rightarrow> json \<Rightarrow> json \<Rightarrow> transport \<Rightarrow> world \<Rightarrow> outcome \<times> world" where
  "randomOutputs this amounts mixin tr w =
     (if \<not> isArray amounts then (Thrown (ArgumentError ''must supply an array of amounts''), w)
      else if mixin = JUndefined then (Thrown (ArgumentError ''must supply a mixin value''), w)
      else
        (case parseInt mixin of
           None \<Rightarrow> (Thrown (ArgumentError ''must supply a valid mixin value''), w)
         | Some n \<Rightarrow>
             rpc_rawPost this ''getrandom_outs''
               (JObj [(''amounts'', amounts), (''outs_count'', JNum n)]) tr w))"

text \<open>
  In \<^verbatim>\<open>rawBlocks\<close>, \<^verbatim>\<open>Math.abs(blockCount)\<close> is reached with a truthy block count whose
  number is not \<^verbatim>\<open>NaN\<close>.
\<close>

definition rawBlocks :: "addr \<Rightarrow> json \<Rightarrow> json \<Rightarrow> transport \<Rightarrow> world \<Rightarrow> outcome \<times> world" where
  "rawBlocks this blockHashes blockCount' tr w =
     (if \<not> isArray blockHashes
      then (Thrown (ArgumentError ''must supply an array of block hashes''), w)
      else if truthy blockCount' \<and> isNaN blockCount'
      then (Thrown (ArgumentError ''block count must be a number''), w)
      else
        andThen
          (rpc_rawPost this ''getblocks''
             (JObj ((''block_ids'', blockHashes) #
                (if truthy blockCount'
                 then (case ToNumber blockCount' of
                         Some n \<Rightarrow> [(''blockCount'', JNum (abs n))]
                       | None \<Rightarrow> [])
                 else [])))
             tr w)
          rawBlocks_response)"

definition sendRawTransaction :: "addr \<Rightarrow> json \<Rightarrow> transport \<Rightarrow> world \<Rightarrow> outcome \<times> world" where
  "sendRawTransaction this transaction' tr w =
     (if \<not> truthy transaction'
      then (Thrown (ArgumentError ''must specify raw serialized transaction''), w)
      else rpc_rawPost this ''sendrawtransaction'' (JObj [(''tx_as_hex'', transaction')]) tr w)"

definition submitBlock :: "addr \<Rightarrow> json \<Rightarrow> transport \<Rightarrow> world \<Rightarrow> outcome \<times> world" where
  "submitBlock this blockBlob tr w =
     (if \<not> truthy blockBlob then (Thrown (ArgumentError ''must specify blockBlob''), w)
      else rpc_post this ''submitblock'' (JArr [blockBlob]) tr w)"

definition transaction :: "addr \<Rightarrow> json \<Rightarrow> transport \<Rightarrow> world \<Rightarrow> outcome \<times> world" where
  "transaction this hash tr w =
     (if \<not> truthy hash then (Thrown (ArgumentError ''must specify hash''), w)
      else andThen (rpc_post this ''f_transaction_json'' (JObj [(''hash'', hash)]) tr w)
             transaction_response)"

definition transactionPool :: "addr \<Rightarrow> transport \<Rightarrow> world \<Rightarrow> outcome \<times> world" where
  "transactionPool this tr w =
     andThen (rpc_post this ''f_on_transactions_pool_json'' JUndefined tr w)
       (\<lambda>response. getprop response ''transactions'')"

definition transactionsStatus :: "addr \<Rightarrow> json \<Rightarrow> transport \<Rightarrow> world \<Rightarrow> outcome \<times> world" where
  "transactionsStatus this transactionHashes tr w =
     (if \<not> isArray transactionHashes
      then (Thrown (ArgumentError ''Must specify transaction hashes''), w)
      else andThen
             (rpc_rawPost this ''get_transactions_status''
                (JObj [(''transactionHashes'', transactionHashes)]) tr w)
             transactionsStatus_response)"

definition walletSyncData :: "addr \<Rightarrow> arg \<Rightarrow> transport \<Rightarrow> world \<Rightarrow> outcome \<times> world" where
  "walletSyncData this opts tr w =
     (let (opts', w0) = or_empty opts w in
      (case default_field opts' ''startHeight'' (JNum 0) w0 of
         Inl e \<Rightarrow> (Thrown e, w0)
       | Inr w1 \<Rightarrow>
      (case default_field opts' ''startTimestamp'' (JNum 0) w1 of
         Inl e \<Rightarrow> (Thrown e, w1)
       | Inr w2 \<Rightarrow>
      (case default_falsy_field opts' ''blockHashCheckpoints'' (JArr []) w2 of
         Inl e \<Rightarrow> (Thrown e, w2)
       | Inr w3 \<Rightarrow>
      (case default_field opts' ''skipCoinbaseTransactions'' (JBool False) w3 of
         Inl e \<Rightarrow> (Thrown e, w3)
       | Inr w4 \<Rightarrow>
           andThen
             (rpc_rawPost this ''getwalletsyncdata''
                (JObj [(''startHeight'', arg_get w4 opts' ''startHeight''),
                       (''startTimestamp'', arg_get w4 opts' ''startTimestamp''),
                       (''blockHashCheckpoints'', arg_get w4 opts' ''blockHashCheckpoints''),
                       (''skipCoinbaseTransactions'', arg_get w4 opts' ''skipCoinbaseTransactions'')])
                tr w4)
             walletSyncData_response)))))"

subsection \<open>A call of any method\<close>

datatype call =
    Block json
  | BlockCount
  | BlockHeaderByHash json
  | BlockHeaderByHeight json
  | BlockShortHeaders json
  | BlocksDetailed arg
  | BlocksLite arg
  | BlockTemplate json json
  | Fee
  | GlobalIndexes json
  | GlobalIndexesForRange json json
  | Height
  | Info
  | LastBlockHeader
  | Peers
  | PoolChanges json json
  | RandomOutputs json json
  | RawBlocks json json
  | SendRawTransaction json
  | SubmitBlock json
  | Transaction json
  | TransactionPool
  | TransactionsStatus json
  | WalletSyncData arg

fun invoke :: "addr \<Rightarrow> call \<Rightarrow> transport \<Rightarrow> world \<Rightarrow> outcome \<times> world" where
  "invoke this (Block h) = block this h"
| "invoke this BlockCount = blockCount this"
| "invoke this (BlockHeaderByHash h) = blockHeaderByHash this h"
| "invoke this (BlockHeaderByHeight h) = blockHeaderByHeight this h"
| "invoke this (BlockShortHeaders h) = blockShortHeaders this h"
| "invoke this (BlocksDetailed opts) = blocksDetailed this opts"
| "invoke this (BlocksLite opts) = blocksLite this opts"
| "invoke this (BlockTemplate a r) = blockTemplate this a r"
| "invoke this Fee = fee this"
| "invoke this (GlobalIndexes h) = globalIndexes this h"
| "invoke this (GlobalIndexesForRange s e) = globalIndexesForRange this s e"
| "invoke this Height = height this"
| "invoke this Info = info this"
| "invoke this LastBlockHeader = lastBlockHeader this"
| "invoke this Peers = peers this"
| "invoke this (PoolChanges t k) = poolChanges this t k"
| "invoke this (RandomOutputs a m) = randomOutputs this a m"
| "invoke this (RawBlocks hs c) = rawBlocks this hs c"
| "invoke this (SendRawTransaction t) = sendRawTransaction this t"
| "invoke this (SubmitBlock b) = submitBlock this b"
| "invoke this (Transaction h) = transaction this h"
| "invoke this TransactionPool = transactionPool this"
| "invoke this (TransactionsStatus hs) = transactionsStatus this hs"
| "invoke this (WalletSyncData opts) = walletSyncData this opts"

section \<open>Notions used in the properties\<close>

text \<open>A daemon that answers every request with the same response, and a world with no object.\<close>

definition const_transport :: "json \<Rightarrow> transport" where
  "const_transport r = (\<lambda>req. Inr r)"

definition empty_world :: world where
  "empty_world = \<lparr>heap = (\<lambda>a. []), next_addr = 0, sent = []\<rparr>"

text \<open>The configuration of a client, and the properties the methods write into an options object.\<close>

definition config_keys :: "string list" where
  "config_keys = [''host'', ''port'', ''timeout'', ''ssl'', ''userAgent'', ''keepAlive'']"

definition option_keys :: "string list" where
  "option_keys = [''timestamp'', ''blockCount'', ''startHeight'', ''startTimestamp'',
     ''blockHashCheckpoints'', ''skipCoinbaseTransactions'']"

text \<open>
  Between two worlds, the objects that exist in the first keep every property that is not
  one of the option keys.
\<close>

definition frame :: "world \<Rightarrow> world \<Rightarrow> bool" where
  "frame w w' =
     (next_addr w \<le> next_addr w' \<and>
      (\<forall>b k. b < next_addr w \<longrightarrow> k \<notin> set option_keys \<longrightarrow> field w' b k = field w b k))"

text \<open>The property \<open>k\<close> of the options argument as the caller passes it.\<close>

definition opts_field :: "world \<Rightarrow> arg \<Rightarrow> string \<Rightarrow> json" where
  "opts_field w opts k =
     (case opts of Ref a \<Rightarrow> lookup (heap w a) k | Val v \<Rightarrow> lookup (own_props v) k)"


text \<open>
  Lowercase hexadecimal, read back: two digits of \<^verbatim>\<open>0123456789abcdef\<close> for each byte, the
  high digit first.
\<close>

definition is_byte :: "int \<Rightarrow> bool" where
  "is_byte n = (0 \<le> n \<and> n < 256)"

definition hex_digits :: string where
  "hex_digits = ''0123456789abcdef''"

fun hex_decode :: "string \<Rightarrow> nat list option" where
  "hex_decode [] = Some []"
| "hex_decode [c] = None"
| "hex_decode (a # b # cs) =
     (case (index_of a hex_digits, index_of b hex_digits, hex_decode cs) of
        (Some x, Some y, Some bs) \<Rightarrow> Some ((16 * x + y) # bs)
      | _ \<Rightarrow> None)"

text \<open>The value an entry holds under a key, and the entries a \<^verbatim>\<open>forEach\<close> body can read.\<close>

fun field_of :: "json \<Rightarrow> string \<Rightarrow> json" where
  "field_of (JObj kv) k = lookup kv k"
| "field_of v k = JUndefined"

fun not_nullish :: "json \<Rightarrow> bool" where
  "not_nullish JUndefined = False"
| "not_nullish JNull = False"
| "not_nullish v = True"

fun keys_of :: "json \<Rightarrow> string list" where
  "keys_of (JObj kv) = map fst kv"
| "keys_of v = []"

fun entries :: "json \<Rightarrow> json list" where
  "entries (JArr xs) = xs"
| "entries v = []"

text \<open>The object that pairs the hash of an entry with its prefix.\<close>

definition paired :: "json \<Rightarrow> json" where
  "paired x =
     JObj [(''hash'', field_of x ''transactionPrefixInfo.txHash''),
           (''prefix'', field_of x ''transactionPrefixInfo.txPrefix'')]"

text \<open>An array of bytes, and the bytes it holds.\<close>

fun is_byte_json :: "json \<Rightarrow> bool" where
  "is_byte_json (JNum n) = is_byte n"
| "is_byte_json v = False"

fun is_byte_array :: "json \<Rightarrow> bool" where
  "is_byte_array (JArr xs) = list_all is_byte_json xs"
| "is_byte_array v = False"

fun byte_value :: "json \<Rightarrow> nat" where
  "byte_value (JNum n) = nat n"
| "byte_value v = 0"

fun byte_values :: "json \<Rightarrow> nat list" where
  "byte_values (JArr xs) = map byte_value xs"
| "byte_values v = []"

text \<open>
  An item of a \<^verbatim>\<open>queryblockslite\<close> response as the daemon documents it: an object with
  the block as an array of bytes and the transaction prefixes as an array of entries.
\<close>

definition lite_item_ok :: "json \<Rightarrow> bool" where
  "lite_item_ok item =
     (not_nullish item \<and> is_byte_array (field_of item ''blockShortInfo.block'') \<and>
      (case field_of item ''blockShortInfo.txPrefixes'' of
         JArr ts \<Rightarrow> list_all not_nullish ts
       | _ \<Rightarrow> False))"

text \<open>
  What the specification asks of the object \<open>y\<close> that stands for the item \<open>z\<close>: exactly
  the plain keys; under \<^verbatim>\<open>hash\<close> the block id of the item; under \<^verbatim>\<open>block\<close> a string
  that reads back, as lowercase hexadecimal, as the bytes of the item's block; under
  \<^verbatim>\<open>transactions\<close> the item's transaction prefixes, paired, in their order.
\<close>

definition lite_rewritten :: "json \<Rightarrow> json \<Rightarrow> bool" where
  "lite_rewritten z y =
     (keys_of y = [''block'', ''hash'', ''transactions''] \<and>
      field_of y ''hash'' = field_of z ''blockShortInfo.blockId'' \<and>
      (case field_of y ''block'' of
         JStr h \<Rightarrow> hex_decode h = Some (byte_values (field_of z ''blockShortInfo.block''))
       | _ \<Rightarrow> False) \<and>
      field_of y ''transactions''
        = JArr (map paired (entries (field_of z ''blockShortInfo.txPrefixes''))))"

text \<open>The object that \<^verbatim>\<open>blocksLite\<close> builds for a well-formed item.\<close>

definition lite_out :: "json \<Rightarrow> json" where
  "lite_out z =
     JObj [(''block'', JStr (toString_hex (byte_values (field_of z ''blockShortInfo.block'')))),
           (''hash'', field_of z ''blockShortInfo.blockId''),
           (''transactions'',
              JArr (map paired (entries (field_of z ''blockShortInfo.txPrefixes''))))]"

text \<open>The block hashes of the options pass the check of \<^verbatim>\<open>blocksLite\<close>.\<close>

definition valid_options :: "world \<Rightarrow> arg \<Rightarrow> bool" where
  "valid_options w opts = isArray (opts_field w opts ''blockHashes'')"

text \<open>A client constructed without options, in a world that holds nothing else.\<close>

definition new_client :: "addr \<times> world" where
  "new_client = MONCoind ''moncoin-rpc'' ''1.0.0'' (Val JUndefined) empty_world"

text \<open>
  The effect of \<^verbatim>\<open>if (opts.k === undefined) opts.k = d\<close> and of
  \<^verbatim>\<open>if (!opts.k) opts.k = d\<close> on the object at an address.
\<close>

definition with_default :: "addr \<Rightarrow> string \<Rightarrow> json \<Rightarrow> world \<Rightarrow> world" where
  "with_default a k d w = (if field w a k = JUndefined then set_field a k d w else w)"

definition with_default_falsy :: "addr \<Rightarrow> string \<Rightarrow> json \<Rightarrow> world \<Rightarrow> world" where
  "with_default_falsy a k d w = (if \<not> truthy (field w a k) then set_field a k d w else w)"

subsection \<open>Example responses\<close>

definition sample_prefix_entries :: "json list" where
  "sample_prefix_entries =
     [JObj [(''transactionPrefixInfo.txHash'', JStr ''t1''),
            (''transactionPrefixInfo.txPrefix'', JObj [(''version'', JNum 1)])],
      JObj [(''transactionPrefixInfo.txHash'', JStr ''t2''),
            (''transactionPrefixInfo.txPrefix'', JObj [(''version'', JNum 2)])]]"

definition sample_pairs :: "json list" where
  "sample_pairs =
     [JObj [(''hash'', JStr ''t1''), (''prefix'', JObj [(''version'', JNum 1)])],
      JObj [(''hash'', JStr ''t2''), (''prefix'', JObj [(''version'', JNum 2)])]]"

definition sample_pool_changes :: obj where
  "sample_pool_changes =
     [(''addedTxs'', JArr sample_prefix_entries), (''deletedTxsIds'', JArr []),
      (''isTailBlockActual'', JBool True), (''status'', JStr ''OK'')]"

definition sample_pool_out :: json where
  "sample_pool_out =
     JObj [(''addedTxs'', JArr sample_pairs), (''deletedTxsIds'', JArr []),
           (''isTailBlockActual'', JBool True), (''status'', JStr ''OK'')]"

definition sample_lite_item :: obj where
  "sample_lite_item =
     [(''blockShortInfo.block'', JArr [JNum 0, JNum 255, JNum 16]),
      (''blockShortInfo.blockId'', JStr ''b1''),
      (''blockShortInfo.txPrefixes'', JArr sample_prefix_entries)]"

definition sample_lite_out :: json where
  "sample_lite_out =
     JObj [(''block'', JStr ''00ff10''), (''hash'', JStr ''b1''),
           (''transactions'', JArr sample_pairs)]"

definition sample_lite_item2 :: obj where
  "sample_lite_item2 =
     [(''blockShortInfo.block'', JArr [JNum 171]),
      (''blockShortInfo.blockId'', JStr ''b2''),
      (''blockShortInfo.txPrefixes'', JArr [])]"

definition sample_lite_out2 :: json where
  "sample_lite_out2 =
     JObj [(''block'', JStr ''ab''), (''hash'', JStr ''b2''), (''transactions'', JArr [])]"

definition sample_blocks_lite :: obj where
  "sample_blocks_lite =
     [(''items'', JArr [JObj sample_lite_item, JObj sample_lite_item2]),
      (''status'', JStr ''OK'')]"

definition sample_blocks_lite_out :: json where
  "sample_blocks_lite_out =
     JObj [(''items'', JArr [sample_lite_out, sample_lite_out2]), (''status'', JStr ''OK'')]"

definition sample_raw_blocks :: obj where
  "sample_raw_blocks =
     [(''response.blocks'', JArr [JObj [(''block'', JStr ''0a''), (''transactions'', JArr [])]]),
      (''response.current_height'', JNum 10), (''response.start_height'', JNum 9),
      (''response.status'', JStr ''OK'')]"

definition sample_raw_blocks_out :: json where
  "sample_raw_blocks_out =
     JObj [(''blocks'', JArr [JObj [(''block'', JStr ''0a''), (''transactions'', JArr [])]]),
           (''current_height'', JNum 10), (''start_height'', JNum 9), (''status'', JStr ''OK'')]"

definition sample_tx :: obj where
  "sample_tx = [([], JStr ''5a''), (''version'', JNum 1), (''extra'', JStr ''01'')]"

definition sample_tx_result :: obj where
  "sample_tx_result =
     [(''status'', JStr ''OK''), (''tx'', JObj sample_tx), (''txDetails'', JObj [(''fee'', JNum 10)])]"

definition sample_tx_plain :: obj where
  "sample_tx_plain = [(''version'', JNum 1), (''extra'', JStr ''01'')]"

definition sample_tx_plain_result :: obj where
  "sample_tx_plain_result =
     [(''status'', JStr ''OK''), (''tx'', JObj sample_tx_plain),
      (''txDetails'', JObj [(''fee'', JNum 10)])]"

text \<open>
  A transaction whose \<^verbatim>\<open>tx\<close> holds the empty string under the empty key.
\<close>

definition sample_tx_falsy :: obj where
  "sample_tx_falsy = [([], JStr []), (''version'', JNum 1)]"

definition sample_tx_falsy_result :: obj where
  "sample_tx_falsy_result = [(''status'', JStr ''OK''), (''tx'', JObj sample_tx_falsy)]"

text \<open>A caller's options object, next to a client: the client is object 1, the options object 2.\<close>

definition caller_world :: world where
  "caller_world = snd (alloc [(''blockHashes'', JArr [JStr ''b1''])] (snd new_client))"

section \<open>Basic facts\<close>

lemma bind_Inl [simp]: "bind (Inl e) f = Inl e"
  by (simp add: bind_def)

lemma bind_Inr [simp]: "bind (Inr x) f = f x"
  by (simp add: bind_def)

lemma lookup_Nil [simp]: "lookup [] k = JUndefined"
  by (simp add: lookup_def)

lemma lookup_update: "lookup (AList.update k v al) k' = (if k' = k then v else lookup al k')"
  by (simp add: lookup_def update_conv')

lemma bind_eq_Inr: "bind m f = Inr y \<longleftrightarrow> (\<exists>x. m = Inr x \<and> f x = Inr y)"
  by (cases m) auto

lemma own_props_not_literal: "\<not> is_literal v \<Longrightarrow> own_props v = []"
  by (cases v) auto

lemma snd_andThen [simp]: "snd (andThen p f) = snd p"
  by (cases p; cases "fst p") auto

lemma fst_andThen_Resolved:
  "fst p = Resolved r \<Longrightarrow>
   fst (andThen p f) = (case f r of Inl e \<Rightarrow> Rejected e | Inr v \<Rightarrow> Resolved v)"
  by (cases p) auto

lemma heap_rawPost [simp]: "heap (snd (rpc_rawPost this e b tr w)) = heap w"
  by (simp add: rpc_rawPost_def send_def)

lemma next_addr_rawPost [simp]: "next_addr (snd (rpc_rawPost this e b tr w)) = next_addr w"
  by (simp add: rpc_rawPost_def send_def)

lemma fst_rawPost_const:
  "e \<noteq> [] \<Longrightarrow> b \<noteq> JUndefined \<Longrightarrow> fst (rpc_rawPost this e b (const_transport r) w) = Resolved r"
  by (simp add: rpc_rawPost_def send_def const_transport_def)

lemma fst_post_const:
  "m \<noteq> [] \<Longrightarrow>
   fst (rpc_post this m p (const_transport r) w) =
     (case post_response r of Inl e \<Rightarrow> Rejected e | Inr v \<Rightarrow> Resolved v)"
  by (simp add: rpc_post_def Let_def fst_andThen_Resolved fst_rawPost_const)

lemma post_response_obj:
  "post_response (JObj kv) =
     (if truthy (lookup kv ''error'')
      then (case getprop (lookup kv ''error'') ''message'' of
              Inl e \<Rightarrow> Inl e
            | Inr m \<Rightarrow> Inl (RPCError (Error_message m)))
      else Inr (lookup kv ''result''))"
  by (simp add: post_response_def bind_def)

lemmas method_defs =
  block_def blockCount_def blockHeaderByHash_def blockHeaderByHeight_def
  blockShortHeaders_def blockTemplate_def fee_def globalIndexes_def globalIndexesForRange_def
  height_def info_def lastBlockHeader_def peers_def poolChanges_def randomOutputs_def
  rawBlocks_def sendRawTransaction_def submitBlock_def transaction_def transactionPool_def
  transactionsStatus_def

section \<open>Arguments are checked before any request\<close>

lemma arg_get_or_empty:
  "or_empty opts w = (o', w0) \<Longrightarrow> arg_get w0 o' k = opts_field w opts k \<and> sent w0 = sent w"
  by (cases opts)
     (auto simp: or_empty_def alloc_def arg_get_def opts_field_def field_def own_props_not_literal
        split: if_splits)





section \<open>The JSON-RPC envelope\<close>




section \<open>Field extraction\<close>

lemma blockHeaderByHeight_block_header:
  "h \<noteq> JUndefined \<Longrightarrow> \<not> truthy (lookup env ''error'') \<Longrightarrow>
   lookup env ''result'' = JObj res \<Longrightarrow>
   fst (blockHeaderByHeight this h (const_transport (JObj env)) w) =
     Resolved (lookup res ''block_header'')"
  by (simp add: blockHeaderByHeight_def fst_andThen_Resolved fst_post_const post_response_obj)

lemma blockHeaderByHash_block_head:
  "truthy h \<Longrightarrow> \<not> truthy (lookup env ''error'') \<Longrightarrow>
   lookup env ''result'' = JObj res \<Longrightarrow>
   fst (blockHeaderByHash this h (const_transport (JObj env)) w) =
     Resolved (lookup res ''block_head'')"
  by (simp add: blockHeaderByHash_def fst_andThen_Resolved fst_post_const post_response_obj)

text \<open>
  C2. On an envelope whose result holds a \<^verbatim>\<open>block_header\<close>, \<^verbatim>\<open>blockHeaderByHeight\<close>
  resolves with that header, while \<^verbatim>\<open>blockHeaderByHash\<close> reads the property
  \<^verbatim>\<open>block_head\<close> and resolves with \<^verbatim>\<open>undefined\<close>.
\<close>

theorem blockHeaderByHash_reads_block_head:
  "fst (blockHeaderByHash 0 (JStr ''ab'')
          (const_transport
             (JObj [(''jsonrpc'', JStr ''2.0''),
                    (''result'', JObj [(''block_header'', JObj [(''height'', JNum 7)]),
                                       (''status'', JStr ''OK'')])]))
          empty_world) = Resolved JUndefined \<and>
   fst (blockHeaderByHeight 0 (JNum 7)
          (const_transport
             (JObj [(''jsonrpc'', JStr ''2.0''),
                    (''result'', JObj [(''block_header'', JObj [(''height'', JNum 7)]),
                                       (''status'', JStr ''OK'')])]))
          empty_world) = Resolved (JObj [(''height'', JNum 7)])"
  by (simp add: blockHeaderByHash_def blockHeaderByHeight_def fst_andThen_Resolved fst_post_const
        post_response_obj lookup_def)

section \<open>Status-checked responses\<close>

lemma lower_char_o: "lower_char c = CHR ''o'' \<longleftrightarrow> c = CHR ''o'' \<or> c = CHR ''O''"
  by (auto simp: lower_char_def upper_chars_def lower_chars_def split: if_splits)

lemma lower_char_k: "lower_char c = CHR ''k'' \<longleftrightarrow> c = CHR ''k'' \<or> c = CHR ''K''"
  by (auto simp: lower_char_def upper_chars_def lower_chars_def split: if_splits)

lemma lower_char_not_kelvin: "lower_char (CHR 0xE2) = CHR 0xE2"
  by (simp add: lower_char_def upper_chars_def lower_chars_def)

lemma toLowerCase_eq_Nil: "toLowerCase s = [] \<longleftrightarrow> s = []"
  by (induction s rule: toLowerCase.induct) auto

text \<open>The strings that are \<^verbatim>\<open>ok\<close> in any case: the last two end in the Kelvin sign.\<close>

lemma toLowerCase_ok:
  "toLowerCase s = ''ok'' \<longleftrightarrow>
     s \<in> {''ok'', ''OK'', ''Ok'', ''oK'', CHR ''o'' # kelvin_sign, CHR ''O'' # kelvin_sign}"
proof (cases s rule: toLowerCase.cases [case_names long one two none])
  case (long a b c t)
  show ?thesis
  proof (cases t)
    case Nil
    with long show ?thesis
      by (auto simp: kelvin_sign_def lower_char_o lower_char_k)
  next
    case (Cons d u)
    show ?thesis
    proof (cases u)
      case Nil
      with long Cons show ?thesis
        by (auto simp: kelvin_sign_def lower_char_o lower_char_k toLowerCase_eq_Nil
              lower_char_not_kelvin split: if_splits)
    next
      case (Cons e v)
      with long \<open>t = d # u\<close> show ?thesis
        by (auto simp: kelvin_sign_def toLowerCase_eq_Nil split: if_splits)
    qed
  qed
next
  case (one a)
  then show ?thesis by (simp add: kelvin_sign_def)
next
  case (two a b)
  then show ?thesis by (auto simp: lower_char_o lower_char_k kelvin_sign_def)
next
  case none
  then show ?thesis by (simp add: kelvin_sign_def)
qed

lemma status_not_ok_str:
  "lookup kv ''status'' = JStr s \<Longrightarrow> status_not_ok (JObj kv) = Inr (toLowerCase s \<noteq> ''ok'')"
  by (simp add: status_not_ok_def)

lemma status_not_ok_missing:
  "lookup kv ''status'' = JUndefined \<Longrightarrow> status_not_ok (JObj kv) = Inl TypeError"
  by (simp add: status_not_ok_def)

text \<open>
  With a status that is \<^verbatim>\<open>ok\<close> in any case and the expected keys holding truthy values
  (arrays, as documented), each rule returns its sub-fields.
\<close>

lemma status_ok_rules:
  assumes "lookup kv ''status'' = JStr s"
    and "s \<in> {''ok'', ''OK'', ''Ok'', ''oK'', CHR ''o'' # kelvin_sign, CHR ''O'' # kelvin_sign}"
  shows "globalIndexes_response (JObj kv) = Inr (lookup kv ''o_indexes'')"
    and "truthy (lookup kv ''indexes'') \<Longrightarrow>
         globalIndexesForRange_response (JObj kv) = Inr (lookup kv ''indexes'')"
    and "truthy (lookup kv ''transactionsInPool'') \<Longrightarrow> truthy (lookup kv ''transactionsInBlock'')
         \<Longrightarrow> truthy (lookup kv ''transactionsUnknown'') \<Longrightarrow>
         transactionsStatus_response (JObj kv) =
           Inr (JObj [(''transactionsInPool'', lookup kv ''transactionsInPool''),
                      (''transactionsInBlock'', lookup kv ''transactionsInBlock''),
                      (''transactionsUnknown'', lookup kv ''transactionsUnknown'')])"
    and "truthy (lookup kv ''items'') \<Longrightarrow> walletSyncData_response (JObj kv) = Inr (JObj kv)"
proof -
  have ok: "toLowerCase s = ''ok''" and t: "truthy (lookup kv ''status'')"
    using assms by (auto simp: toLowerCase_ok)
  have n: "status_not_ok (JObj kv) = Inr False"
    using assms(1) ok by (simp add: status_not_ok_str)
  show "globalIndexes_response (JObj kv) = Inr (lookup kv ''o_indexes'')"
    by (simp add: globalIndexes_response_def n)
  show "truthy (lookup kv ''indexes'') \<Longrightarrow>
         globalIndexesForRange_response (JObj kv) = Inr (lookup kv ''indexes'')"
    by (simp add: globalIndexesForRange_response_def n t)
  show "truthy (lookup kv ''transactionsInPool'') \<Longrightarrow> truthy (lookup kv ''transactionsInBlock'')
         \<Longrightarrow> truthy (lookup kv ''transactionsUnknown'') \<Longrightarrow>
         transactionsStatus_response (JObj kv) =
           Inr (JObj [(''transactionsInPool'', lookup kv ''transactionsInPool''),
                      (''transactionsInBlock'', lookup kv ''transactionsInBlock''),
                      (''transactionsUnknown'', lookup kv ''transactionsUnknown'')])"
    by (simp add: transactionsStatus_response_def n t)
  show "truthy (lookup kv ''items'') \<Longrightarrow> walletSyncData_response (JObj kv) = Inr (JObj kv)"
    by (simp add: walletSyncData_response_def n t)
qed

text \<open>With the status \<^verbatim>\<open>failed\<close>, each rule fails with a status error.\<close>

lemma status_failed_rules:
  assumes "lookup kv ''status'' = JStr ''failed''"
  shows "\<exists>m. globalIndexes_response (JObj kv) = Inl (StatusError m)"
    and "\<exists>m. globalIndexesForRange_response (JObj kv) = Inl (StatusError m)"
    and "\<exists>m. transactionsStatus_response (JObj kv) = Inl (StatusError m)"
    and "\<exists>m. walletSyncData_response (JObj kv) = Inl (StatusError m)"
proof -
  have n: "status_not_ok (JObj kv) = Inr True"
    using assms by (simp add: status_not_ok_str toLowerCase_ok)
  have t: "truthy (lookup kv ''status'')" using assms by simp
  show "\<exists>m. globalIndexes_response (JObj kv) = Inl (StatusError m)"
    by (simp add: globalIndexes_response_def n)
  show "\<exists>m. globalIndexesForRange_response (JObj kv) = Inl (StatusError m)"
    by (simp add: globalIndexesForRange_response_def n t)
  show "\<exists>m. transactionsStatus_response (JObj kv) = Inl (StatusError m)"
    by (simp add: transactionsStatus_response_def n t)
  show "\<exists>m. walletSyncData_response (JObj kv) = Inl (StatusError m)"
    by (simp add: walletSyncData_response_def n t)
qed

text \<open>
  Without a status, three rules fail with their status error; the rule of
  \<^verbatim>\<open>globalIndexes\<close> calls \<^verbatim>\<open>toLowerCase\<close> on \<^verbatim>\<open>undefined\<close>.
\<close>

lemma status_missing_rules:
  assumes "lookup kv ''status'' = JUndefined"
  shows "globalIndexes_response (JObj kv) = Inl TypeError"
    and "globalIndexesForRange_response (JObj kv) =
           Inl (StatusError ''Missing indexes or status key'')"
    and "transactionsStatus_response (JObj kv) =
           Inl (StatusError ''Missing status of transactions key'')"
    and "walletSyncData_response (JObj kv) = Inl (StatusError ''Missing items or status key'')"
  using assms
  by (simp_all add: globalIndexes_response_def globalIndexesForRange_response_def
        transactionsStatus_response_def walletSyncData_response_def status_not_ok_missing)

text \<open>
  C1. On a response without a status field, \<^verbatim>\<open>globalIndexes\<close> is rejected with a
  \<^verbatim>\<open>TypeError\<close>, not with a status error; \<^verbatim>\<open>globalIndexesForRange\<close>, on the same kind
  of response, is rejected with its status error.
\<close>

theorem globalIndexes_missing_status:
  "fst (globalIndexes 0 (JStr ''ab'')
          (const_transport (JObj [(''o_indexes'', JArr [JNum 1, JNum 2, JNum 3])])) empty_world)
     = Rejected TypeError \<and>
   fst (globalIndexesForRange 0 (JNum 1) (JNum 2)
          (const_transport (JObj [(''indexes'', JArr [JNum 1, JNum 2, JNum 3])])) empty_world)
     = Rejected (StatusError ''Missing indexes or status key'')"
  by (simp add: globalIndexes_def globalIndexesForRange_def fst_andThen_Resolved fst_rawPost_const
        globalIndexes_response_def globalIndexesForRange_response_def status_not_ok_def lookup_def)

section \<open>The configuration is never written\<close>

lemma frame_refl [simp]: "frame w w"
  by (simp add: frame_def)

lemma frame_trans: "frame w w1 \<Longrightarrow> frame w1 w2 \<Longrightarrow> frame w w2"
  by (auto simp: frame_def)

lemma frame_heap_eq: "heap w' = heap w \<Longrightarrow> next_addr w' = next_addr w \<Longrightarrow> frame w w'"
  by (simp add: frame_def field_def)

lemma field_set_field:
  "field (set_field a k v w) b k' = (if b = a \<and> k' = k then v else field w b k')"
  by (simp add: field_def set_field_def lookup_update)

lemma frame_set_field: "k \<in> set option_keys \<Longrightarrow> frame w (set_field a k v w)"
  by (auto simp: frame_def field_set_field) (simp add: set_field_def)

lemma frame_or_empty: "or_empty opts w = (o', w') \<Longrightarrow> frame w w'"
  by (auto simp: or_empty_def alloc_def frame_def field_def split: arg.splits if_splits)

lemma frame_default_field:
  "k \<in> set option_keys \<Longrightarrow> default_field o' k d w = Inr w' \<Longrightarrow> frame w w'"
  by (auto simp: default_field_def arg_set_def frame_set_field split: if_splits arg.splits)

lemma frame_default_falsy_field:
  "k \<in> set option_keys \<Longrightarrow> default_falsy_field o' k d w = Inr w' \<Longrightarrow> frame w w'"
  by (auto simp: default_falsy_field_def arg_set_def frame_set_field split: if_splits arg.splits)

lemma frame_rawPost: "frame w (snd (rpc_rawPost this e b tr w))"
  by (simp add: frame_heap_eq)

text \<open>One guarded assignment of a method, followed by the rest of its body.\<close>

lemma frame_step:
  assumes "frame w w0" and "\<And>w1. m = Inr w1 \<Longrightarrow> frame w0 w1"
    and "\<And>w1. frame w w1 \<Longrightarrow> frame w (snd (k w1))"
  shows "frame w (snd (case m of Inl e \<Rightarrow> (Thrown e, w0) | Inr w1 \<Rightarrow> k w1))"
  using assms by (cases m) (auto intro: frame_trans)

lemma frame_walletSyncData: "frame w (snd (walletSyncData this opts tr w))"
proof -
  obtain o' w0 where o: "or_empty opts w = (o', w0)" by (cases "or_empty opts w")
  have f0: "frame w w0" using o by (rule frame_or_empty)
  show ?thesis
    unfolding walletSyncData_def o Let_def prod.case
    apply (rule frame_step, rule f0, erule frame_default_field[rotated], simp add: option_keys_def)
    apply (rule frame_step, assumption, erule frame_default_field[rotated],
           simp add: option_keys_def)
    apply (rule frame_step, assumption, erule frame_default_falsy_field[rotated],
           simp add: option_keys_def)
    apply (rule frame_step, assumption, erule frame_default_field[rotated],
           simp add: option_keys_def)
    apply (simp, erule frame_trans, rule frame_rawPost)
    done
qed

lemma frame_blocksDetailed: "frame w (snd (blocksDetailed this opts tr w))"
proof -
  obtain o' w0 where o: "or_empty opts w = (o', w0)" by (cases "or_empty opts w")
  have f0: "frame w w0" using o by (rule frame_or_empty)
  show ?thesis
  proof (cases "isArray (arg_get w0 o' ''blockHashes'')")
    case False
    then show ?thesis unfolding blocksDetailed_def o Let_def prod.case by (simp add: f0)
  next
    case True
    then show ?thesis
      unfolding blocksDetailed_def o Let_def prod.case
      apply (simp only: not_True_eq_False if_False)
      apply (rule frame_step, rule f0, erule frame_default_field[rotated],
             simp add: option_keys_def)
      apply (rule frame_step, assumption, erule frame_default_field[rotated],
             simp add: option_keys_def)
      apply (erule frame_trans, rule frame_rawPost)
      done
  qed
qed

lemma frame_blocksLite: "frame w (snd (blocksLite this opts tr w))"
proof -
  obtain o' w0 where o: "or_empty opts w = (o', w0)" by (cases "or_empty opts w")
  have f0: "frame w w0" using o by (rule frame_or_empty)
  show ?thesis
  proof (cases "isArray (arg_get w0 o' ''blockHashes'')")
    case False
    then show ?thesis unfolding blocksLite_def o Let_def prod.case by (simp add: f0)
  next
    case True
    then show ?thesis
      unfolding blocksLite_def o Let_def prod.case
      apply (simp only: not_True_eq_False if_False)
      apply (rule frame_step, rule f0, erule frame_default_field[rotated],
             simp add: option_keys_def)
      apply (simp, erule frame_trans, rule frame_rawPost)
      done
  qed
qed

lemma frame_invoke: "frame w (snd (invoke this c tr w))"
  by (cases c)
     (simp_all add: frame_walletSyncData frame_blocksDetailed frame_blocksLite method_defs
        frame_heap_eq rpc_post_def rpc_get_def send_def Let_def split: option.splits)

text \<open>The constructor sets the six configuration properties of the new object.\<close>

lemma new_client_fields:
  "fst new_client = 1" "next_addr (snd new_client) = 2"
  "heap (snd new_client) 1 =
     [(''host'', JStr ''127.0.0.1''), (''port'', JNum 12898), (''timeout'', JNum 2000),
      (''ssl'', JBool False), (''userAgent'', JStr ''moncoin-rpc/1.0.0''),
      (''keepAlive'', JBool True)]"
  by (simp_all add: new_client_def MONCoind_def or_empty_def alloc_def empty_world_def
        arg_get_def field_def or_default_def)

text \<open>
  C9. For every method, every argument (also an options argument that is the client
  itself) and every answer of the daemon, each configuration property of an existing
  client is after the call what it was before.
\<close>

theorem config_unchanged:
  assumes "this < next_addr w" and "k \<in> set config_keys"
  shows "field (snd (invoke this c tr w)) this k = field w this k"
proof -
  have "k \<notin> set option_keys" using assms(2) by (auto simp: option_keys_def config_keys_def)
  with frame_invoke[of w this c tr] assms(1) show ?thesis by (simp add: frame_def)
qed

theorem config_unchanged_witness:
  "1 < next_addr (snd new_client) \<and> ''timeout'' \<in> set config_keys \<and>
   field (snd (invoke 1 (WalletSyncData (Ref 1)) (const_transport JNull) (snd new_client)))
     1 ''timeout'' = JNum 2000 \<and>
   field (snd (invoke 1 (WalletSyncData (Ref 1)) (const_transport JNull) (snd new_client)))
     1 ''startHeight'' = JNum 0 \<and>
   field (snd new_client) 1 ''startHeight'' = JUndefined"
proof -
  have h1: "1 < next_addr (snd new_client)" by code_simp
  have h2: "''timeout'' \<in> set config_keys" by code_simp
  have before: "field (snd new_client) 1 ''timeout'' = JNum 2000" by code_simp
  have c: "field (snd (invoke 1 (WalletSyncData (Ref 1)) (const_transport JNull) (snd new_client)))
     1 ''timeout'' = JNum 2000"
    using config_unchanged [OF h1 h2, of "WalletSyncData (Ref 1)" "const_transport JNull"] before
    by (rule trans)
  have s: "field (snd (invoke 1 (WalletSyncData (Ref 1)) (const_transport JNull) (snd new_client)))
     1 ''startHeight'' = JNum 0"
    by code_simp
  have u: "field (snd new_client) 1 ''startHeight'' = JUndefined" by code_simp
  from h1 h2 c s u show ?thesis by (intro conjI)
qed

section \<open>Binary to hex\<close>

lemma index_of_hex_digits_all:
  "list_all (\<lambda>d. index_of (digit_chars ! d) hex_digits = Some d) [0 ..< 16]"
  by (simp add: digit_chars_def hex_digits_def upt_rec)

lemma index_of_hex_digit: "d < 16 \<Longrightarrow> index_of (digit_chars ! d) hex_digits = Some d"
  using index_of_hex_digits_all by (simp add: list_all_iff)

lemma hex_decode_hex_byte:
  assumes "b < 256"
  shows "hex_decode (hex_byte b @ cs) = map_option ((#) b) (hex_decode cs)"
proof -
  have 1: "b div 16 mod 16 = b div 16" "b div 16 < 16" "b mod 16 < 16" using assms by auto
  have 2: "16 * (b div 16) + b mod 16 = b" by simp
  show ?thesis
    by (cases "hex_decode cs") (simp_all add: hex_byte_def 1 index_of_hex_digit 2)
qed

lemma hex_decode_toString_hex:
  "list_all (\<lambda>b. b < 256) bs \<Longrightarrow> hex_decode (toString_hex bs) = Some bs"
  by (induction bs) (simp_all add: toString_hex_def hex_decode_hex_byte)

lemma length_toString_hex: "length (toString_hex bs) = 2 * length bs"
  by (induction bs) (simp_all add: toString_hex_def hex_byte_def)

lemma index_of_nth: "index_of c s = Some i \<Longrightarrow> i < length s \<and> s ! i = c"
  by (induction s arbitrary: i) (auto split: if_splits)

lemma hex_digits_nth: "i < 16 \<Longrightarrow> hex_digits ! i = digit_chars ! i"
proof -
  have "list_all (\<lambda>i. hex_digits ! i = digit_chars ! i) [0 ..< 16]"
    by (simp add: digit_chars_def hex_digits_def upt_rec)
  then show "i < 16 \<Longrightarrow> hex_digits ! i = digit_chars ! i" by (simp add: list_all_iff)
qed

lemma hex_pair_unique:
  assumes "index_of a hex_digits = Some x" and "index_of b hex_digits = Some y"
  shows "[a, b] = hex_byte (16 * x + y)"
proof -
  from index_of_nth[OF assms(1)] have x: "x < 16" "a = hex_digits ! x"
    by (simp_all add: hex_digits_def)
  from index_of_nth[OF assms(2)] have y: "y < 16" "b = hex_digits ! y"
    by (simp_all add: hex_digits_def)
  have "(16 * x + y) div 16 mod 16 = x" "(16 * x + y) mod 16 = y" using x(1) y(1) by auto
  then show ?thesis by (simp add: hex_byte_def x y hex_digits_nth)
qed

text \<open>Only one string reads back as a given list of bytes.\<close>

lemma hex_decode_unique: "hex_decode h = Some bs \<Longrightarrow> h = toString_hex bs"
proof (induction h arbitrary: bs rule: hex_decode.induct)
  case 1
  then show ?case by (simp add: toString_hex_def)
next
  case (2 c)
  then show ?case by simp
next
  case (3 a b cs)
  from "3.prems" obtain x y bs' where
    p: "index_of a hex_digits = Some x" "index_of b hex_digits = Some y"
       "hex_decode cs = Some bs'" "bs = (16 * x + y) # bs'"
    by (auto split: option.splits)
  from "3.IH" p(3) have "cs = toString_hex bs'" by simp
  with hex_pair_unique[OF p(1,2)] p(4) show ?case
    by (simp add: toString_hex_def)
qed

lemma ToUint8_byte_json: "is_byte_json v \<Longrightarrow> ToUint8 v = byte_value v"
  by (cases v) (simp_all add: ToUint8_def is_byte_def)

lemma byte_value_bound: "is_byte_json v \<Longrightarrow> byte_value v < 256"
  by (cases v) (auto simp: is_byte_def nat_less_iff)

text \<open>The conversion of an array of bytes, and what the string reads back as.\<close>

lemma to_hex_byte_array:
  "is_byte_array b \<Longrightarrow> to_hex b = Inr (JStr (toString_hex (byte_values b)))"
  by (cases b) (simp_all add: to_hex_def list_all_iff ToUint8_byte_json cong: map_cong)

lemma hex_decode_byte_array:
  "is_byte_array b \<Longrightarrow> hex_decode (toString_hex (byte_values b)) = Some (byte_values b)"
  by (cases b) (auto intro!: hex_decode_toString_hex simp: list_all_iff byte_value_bound)

lemma byte_values_map_JNum: "byte_values (JArr (map JNum ns)) = map nat ns"
  by (simp add: comp_def)

lemma is_byte_array_map_JNum: "is_byte_array (JArr (map JNum ns)) = list_all is_byte ns"
  by (simp add: list_all_iff)

section \<open>Key rewriting and array reshaping\<close>

lemma mapM_map: "(\<And>x. x \<in> set xs \<Longrightarrow> f x = Inr (g x)) \<Longrightarrow> mapM f xs = Inr (map g xs)"
  by (induction xs) auto

lemma prefix_pair_paired: "not_nullish x \<Longrightarrow> prefix_pair x = Inr (paired x)"
  by (cases x) (simp_all add: prefix_pair_def paired_def)

lemma mapM_prefix_pair:
  "list_all not_nullish xs \<Longrightarrow> mapM prefix_pair xs = Inr (map paired xs)"
  by (rule mapM_map) (simp add: list_all_iff prefix_pair_paired)

text \<open>The rules of the three responses, on a well-formed response.\<close>

lemma rawBlocks_response_obj:
  "rawBlocks_response (JObj r) =
     Inr (JObj [(''blocks'', lookup r ''response.blocks''),
                (''current_height'', lookup r ''response.current_height''),
                (''start_height'', lookup r ''response.start_height''),
                (''status'', lookup r ''response.status'')])"
  by (simp add: rawBlocks_response_def)

lemma poolChanges_response_ok:
  assumes "lookup p ''addedTxs'' = JArr xs" and "list_all not_nullish xs"
  shows "poolChanges_response (JObj p) =
           Inr (JObj (AList.update ''addedTxs'' (JArr (map paired xs)) p))"
  using assms by (simp add: poolChanges_response_def mapM_prefix_pair)

lemma lite_item_lite_out:
  assumes "lite_item_ok z"
  shows "lite_item z = Inr (lite_out z)"
proof -
  from assms obtain e where z: "z = JObj e"
    by (cases z) (auto simp: lite_item_ok_def)
  from assms z obtain ts where ts: "lookup e ''blockShortInfo.txPrefixes'' = JArr ts"
      "list_all not_nullish ts"
    by (auto simp: lite_item_ok_def split: json.splits)
  from assms z have "is_byte_array (lookup e ''blockShortInfo.block'')"
    by (simp add: lite_item_ok_def)
  then have "to_hex (lookup e ''blockShortInfo.block'')
               = Inr (JStr (toString_hex (byte_values (lookup e ''blockShortInfo.block''))))"
    by (rule to_hex_byte_array)
  with ts z show ?thesis by (simp add: lite_item_def lite_out_def mapM_prefix_pair)
qed

lemma lite_rewritten_lite_out:
  assumes "lite_item_ok z"
  shows "lite_rewritten z (lite_out z)"
proof -
  from assms have "is_byte_array (field_of z ''blockShortInfo.block'')"
    by (simp add: lite_item_ok_def)
  then show ?thesis
    by (simp add: lite_rewritten_def lite_out_def lookup_def hex_decode_byte_array)
qed

lemma blocksLite_response_ok:
  assumes "lookup l ''items'' = JArr zs" and "list_all lite_item_ok zs"
  shows "blocksLite_response (JObj l) =
           Inr (JObj (AList.update ''items'' (JArr (map lite_out zs)) l))"
proof -
  from assms(2) have "mapM lite_item zs = Inr (map lite_out zs)"
    by (intro mapM_map lite_item_lite_out) (simp add: list_all_iff)
  with assms(1) show ?thesis by (simp add: blocksLite_response_def)
qed

text \<open>The three methods, on a valid call answered by the daemon with \<open>r\<close>.\<close>

lemma fst_rawBlocks:
  assumes "isArray hs" and "\<not> (truthy c \<and> isNaN c)"
  shows "fst (rawBlocks this hs c (const_transport r) w) =
           (case rawBlocks_response r of Inl e \<Rightarrow> Rejected e | Inr v \<Rightarrow> Resolved v)"
  using assms by (auto simp: rawBlocks_def fst_andThen_Resolved fst_rawPost_const)

lemma fst_poolChanges:
  assumes "t \<noteq> JUndefined" and "isArray k"
  shows "fst (poolChanges this t k (const_transport r) w) =
           (case poolChanges_response r of Inl e \<Rightarrow> Rejected e | Inr v \<Rightarrow> Resolved v)"
  using assms by (simp add: poolChanges_def fst_andThen_Resolved fst_rawPost_const)

lemma fst_blocksLite:
  assumes "valid_options w opts"
  shows "fst (blocksLite this opts (const_transport r) w) =
           (case blocksLite_response r of Inl e \<Rightarrow> Rejected e | Inr v \<Rightarrow> Resolved v)"
proof -
  obtain o' w0 where o: "or_empty opts w = (o', w0)" by (cases "or_empty opts w")
  from arg_get_or_empty[OF o] assms have a: "isArray (arg_get w0 o' ''blockHashes'')"
    by (simp add: valid_options_def)
  then obtain a' where r: "o' = Ref a'" by (cases o') (auto simp: arg_get_def)
  have "\<exists>w1. default_field o' ''timestamp'' (JNum 0) w0 = Inr w1"
    by (simp add: r default_field_def arg_set_def)
  then obtain w1 where d: "default_field o' ''timestamp'' (JNum 0) w0 = Inr w1" ..
  show ?thesis
    unfolding blocksLite_def o Let_def prod.case
    using a by (simp add: d fst_andThen_Resolved fst_rawPost_const)
qed

lemma blocksLite_resolves:
  assumes "valid_options w opts" and "lookup l ''items'' = JArr zs"
    and "list_all lite_item_ok zs"
  shows "fst (blocksLite this opts (const_transport (JObj l)) w) =
           Resolved (JObj (AList.update ''items'' (JArr (map lite_out zs)) l))"
  using assms by (simp add: fst_blocksLite blocksLite_response_ok)

lemma poolChanges_resolves:
  assumes "t \<noteq> JUndefined" and "isArray k" and "lookup p ''addedTxs'' = JArr xs"
    and "list_all not_nullish xs"
  shows "fst (poolChanges this t k (const_transport (JObj p)) w) =
           Resolved (JObj (AList.update ''addedTxs'' (JArr (map paired xs)) p))"
  using assms by (simp add: fst_poolChanges poolChanges_response_ok)

text \<open>
  C5. \<^verbatim>\<open>blocksLite\<close>, on a valid call answered with well-formed items, resolves with the
  response whose items are replaced one for one, and the \<^verbatim>\<open>block\<close> of the i-th new item
  is the lowercase hexadecimal string of the bytes of the i-th item's block: two digits
  for each byte, in order, so that it reads back as the bytes, and it is the only string
  that does.
\<close>

theorem block_bytes_to_hex:
  assumes "valid_options w opts" and "lookup l ''items'' = JArr zs"
    and "list_all lite_item_ok zs" and "i < length zs"
    and "field_of (zs ! i) ''blockShortInfo.block'' = JArr (map JNum ns)"
  shows "\<exists>ys. fst (blocksLite this opts (const_transport (JObj l)) w) =
                Resolved (JObj (AList.update ''items'' (JArr ys) l)) \<and>
              length ys = length zs \<and>
              field_of (ys ! i) ''block'' = JStr (toString_hex (map nat ns)) \<and>
              hex_decode (toString_hex (map nat ns)) = Some (map nat ns) \<and>
              (\<forall>h. hex_decode h = Some (map nat ns) \<longrightarrow> h = toString_hex (map nat ns)) \<and>
              length (toString_hex (map nat ns)) = 2 * length ns"
proof -
  have r: "fst (blocksLite this opts (const_transport (JObj l)) w) =
             Resolved (JObj (AList.update ''items'' (JArr (map lite_out zs)) l))"
    using assms(1-3) by (rule blocksLite_resolves)
  have b: "field_of (map lite_out zs ! i) ''block'' = JStr (toString_hex (map nat ns))"
    using assms(4,5) by (simp add: lite_out_def lookup_def comp_def)
  from assms(3,4) have "lite_item_ok (zs ! i)" by (simp add: list_all_length)
  then have "is_byte_array (JArr (map JNum ns))"
    using assms(5) by (simp add: lite_item_ok_def)
  from hex_decode_byte_array[OF this]
  have d: "hex_decode (toString_hex (map nat ns)) = Some (map nat ns)"
    by (simp add: comp_def)
  have u: "\<forall>h. hex_decode h = Some (map nat ns) \<longrightarrow> h = toString_hex (map nat ns)"
    by (simp add: hex_decode_unique)
  have n: "length (toString_hex (map nat ns)) = 2 * length ns"
    by (simp add: length_toString_hex)
  have m: "length (map lite_out zs) = length zs" by simp
  from r m b d u n show ?thesis
    by - (intro exI[of _ "map lite_out zs"] conjI; assumption)
qed

theorem block_bytes_to_hex_witness:
  "valid_options empty_world (Val (JObj [(''blockHashes'', JArr [])])) \<and>
   lookup sample_blocks_lite ''items'' = JArr [JObj sample_lite_item, JObj sample_lite_item2] \<and>
   list_all lite_item_ok [JObj sample_lite_item, JObj sample_lite_item2] \<and>
   0 < length [JObj sample_lite_item, JObj sample_lite_item2] \<and>
   field_of ([JObj sample_lite_item, JObj sample_lite_item2] ! 0) ''blockShortInfo.block''
     = JArr (map JNum [0, 255, 16]) \<and>
   (\<exists>ys. fst (blocksLite 0 (Val (JObj [(''blockHashes'', JArr [])]))
                (const_transport (JObj sample_blocks_lite)) empty_world)
           = Resolved (JObj (AList.update ''items'' (JArr ys) sample_blocks_lite)) \<and>
         length ys = 2 \<and> field_of (ys ! 0) ''block'' = JStr ''00ff10'') \<and>
   hex_decode ''00ff10'' = Some [0, 255, 16] \<and>
   fst (blocksLite 0 (Val (JObj [(''blockHashes'', JArr [])]))
          (const_transport (JObj sample_blocks_lite)) empty_world)
     = Resolved sample_blocks_lite_out"
proof -
  have h1: "valid_options empty_world (Val (JObj [(''blockHashes'', JArr [])]))" by code_simp
  have h2: "lookup sample_blocks_lite ''items''
              = JArr [JObj sample_lite_item, JObj sample_lite_item2]" by code_simp
  have h3: "list_all lite_item_ok [JObj sample_lite_item, JObj sample_lite_item2]" by code_simp
  have h4: "0 < length [JObj sample_lite_item, JObj sample_lite_item2]" by simp
  have h5: "field_of ([JObj sample_lite_item, JObj sample_lite_item2] ! 0)
              ''blockShortInfo.block'' = JArr (map JNum [0, 255, 16])" by code_simp
  have v: "toString_hex (map nat [0, 255, 16]) = ''00ff10''" by code_simp
  have n: "map nat [0, 255, 16] = [0, 255, 16]" by simp
  from block_bytes_to_hex [OF h1 h2 h3 h4 h5, of 0] obtain ys where
    y: "fst (blocksLite 0 (Val (JObj [(''blockHashes'', JArr [])]))
              (const_transport (JObj sample_blocks_lite)) empty_world)
          = Resolved (JObj (AList.update ''items'' (JArr ys) sample_blocks_lite))"
       "length ys = length [JObj sample_lite_item, JObj sample_lite_item2]"
       "field_of (ys ! 0) ''block'' = JStr (toString_hex (map nat [0, 255, 16]))"
       "hex_decode (toString_hex (map nat [0, 255, 16])) = Some (map nat [0, 255, 16])"
    by blast
  from y(1,2) y(3)[unfolded v] have 1:
    "\<exists>ys. fst (blocksLite 0 (Val (JObj [(''blockHashes'', JArr [])]))
                (const_transport (JObj sample_blocks_lite)) empty_world)
           = Resolved (JObj (AList.update ''items'' (JArr ys) sample_blocks_lite)) \<and>
         length ys = 2 \<and> field_of (ys ! 0) ''block'' = JStr ''00ff10''"
    by (intro exI[of _ ys]) simp
  have v': "toString_hex [0, 255, 16] = ''00ff10''" by code_simp
  from y(4)[unfolded n v'] have 2: "hex_decode ''00ff10'' = Some [0, 255, 16]" .
  have 3: "fst (blocksLite 0 (Val (JObj [(''blockHashes'', JArr [])]))
          (const_transport (JObj sample_blocks_lite)) empty_world)
     = Resolved sample_blocks_lite_out" by code_simp
  from h1 h2 h3 h4 h5 1 2 3 show ?thesis by (intro conjI)
qed

text \<open>
  C6, as stated, fails for the \<^verbatim>\<open>block\<close> of a \<^verbatim>\<open>blocksLite\<close> item: the value under
  \<^verbatim>\<open>blockShortInfo.block\<close> is an array of bytes, the value exposed under \<^verbatim>\<open>block\<close>
  is a string.
\<close>

theorem blocksLite_block_value_counterexample:
  "lookup sample_lite_item ''blockShortInfo.block'' = JArr [JNum 0, JNum 255, JNum 16] \<and>
   fst (blocksLite 0 (Val (JObj [(''blockHashes'', JArr [])]))
          (const_transport (JObj sample_blocks_lite)) empty_world)
     = Resolved sample_blocks_lite_out \<and>
   field_of sample_blocks_lite_out ''items'' = JArr [sample_lite_out, sample_lite_out2] \<and>
   field_of sample_lite_out ''block'' = JStr ''00ff10'' \<and>
   JStr ''00ff10'' \<noteq> JArr [JNum 0, JNum 255, JNum 16]"
  by code_simp

text \<open>
  C6, amended. On a valid call answered with a well-formed response: \<^verbatim>\<open>rawBlocks\<close>
  resolves with an object of exactly the keys \<^verbatim>\<open>blocks\<close>, \<^verbatim>\<open>current_height\<close>,
  \<^verbatim>\<open>start_height\<close> and \<^verbatim>\<open>status\<close>, holding the values of \<^verbatim>\<open>response.blocks\<close>,
  \<^verbatim>\<open>response.current_height\<close>, \<^verbatim>\<open>response.start_height\<close> and \<^verbatim>\<open>response.status\<close>;
  \<^verbatim>\<open>poolChanges\<close> resolves with the response in which every entry of \<^verbatim>\<open>addedTxs\<close> is
  replaced by an object of exactly the keys \<^verbatim>\<open>hash\<close> and \<^verbatim>\<open>prefix\<close>, holding the
  values of \<^verbatim>\<open>transactionPrefixInfo.txHash\<close> and \<^verbatim>\<open>transactionPrefixInfo.txPrefix\<close>;
  \<^verbatim>\<open>blocksLite\<close> resolves with the response in which every item is replaced by an
  object of exactly the keys \<^verbatim>\<open>block\<close>, \<^verbatim>\<open>hash\<close> and \<^verbatim>\<open>transactions\<close>, where
  \<^verbatim>\<open>hash\<close> holds the value of \<^verbatim>\<open>blockShortInfo.blockId\<close>, \<^verbatim>\<open>block\<close> the hex string of
  the bytes of \<^verbatim>\<open>blockShortInfo.block\<close> (not the same value), and \<^verbatim>\<open>transactions\<close>
  the entries of \<^verbatim>\<open>blockShortInfo.txPrefixes\<close> rewritten like those of \<^verbatim>\<open>addedTxs\<close>.
  No rewritten object has a dotted key.
\<close>

theorem dotted_keys_rewritten:
  "(isArray hs \<and> \<not> (truthy c \<and> isNaN c) \<longrightarrow>
      fst (rawBlocks this hs c (const_transport (JObj r)) w) =
        Resolved (JObj [(''blocks'', lookup r ''response.blocks''),
                        (''current_height'', lookup r ''response.current_height''),
                        (''start_height'', lookup r ''response.start_height''),
                        (''status'', lookup r ''response.status'')])) \<and>
   (t \<noteq> JUndefined \<and> isArray k \<and> lookup p ''addedTxs'' = JArr xs \<and>
    list_all not_nullish xs \<longrightarrow>
      fst (poolChanges this t k (const_transport (JObj p)) w) =
        Resolved (JObj (AList.update ''addedTxs'' (JArr (map paired xs)) p))) \<and>
   (valid_options w opts \<and> lookup l ''items'' = JArr zs \<and> list_all lite_item_ok zs \<longrightarrow>
      (\<exists>ys. fst (blocksLite this opts (const_transport (JObj l)) w) =
               Resolved (JObj (AList.update ''items'' (JArr ys) l)) \<and>
            list_all2 lite_rewritten zs ys))"
proof -
  have 1: "fst (rawBlocks this hs c (const_transport (JObj r)) w) =
        Resolved (JObj [(''blocks'', lookup r ''response.blocks''),
                        (''current_height'', lookup r ''response.current_height''),
                        (''start_height'', lookup r ''response.start_height''),
                        (''status'', lookup r ''response.status'')])"
    if "isArray hs" "\<not> (truthy c \<and> isNaN c)"
    using that by (simp add: fst_rawBlocks rawBlocks_response_obj)
  have 2: "fst (poolChanges this t k (const_transport (JObj p)) w) =
        Resolved (JObj (AList.update ''addedTxs'' (JArr (map paired xs)) p))"
    if "t \<noteq> JUndefined" "isArray k" "lookup p ''addedTxs'' = JArr xs" "list_all not_nullish xs"
    using that by (rule poolChanges_resolves)
  have 3: "\<exists>ys. fst (blocksLite this opts (const_transport (JObj l)) w) =
               Resolved (JObj (AList.update ''items'' (JArr ys) l)) \<and>
            list_all2 lite_rewritten zs ys"
    if a: "valid_options w opts" "lookup l ''items'' = JArr zs" "list_all lite_item_ok zs"
  proof -
    from a(3) have "list_all2 lite_rewritten zs (map lite_out zs)"
      by (simp add: list_all2_conv_all_nth list_all_length lite_rewritten_lite_out)
    with blocksLite_resolves[OF a] show ?thesis by blast
  qed
  from 1 2 3 show ?thesis by blast
qed

theorem dotted_keys_rewritten_witness:
  "isArray (JArr [JStr ''b1'']) \<and> \<not> (truthy JUndefined \<and> isNaN JUndefined) \<and>
   fst (rawBlocks 0 (JArr [JStr ''b1'']) JUndefined
          (const_transport (JObj sample_raw_blocks)) empty_world)
     = Resolved sample_raw_blocks_out \<and>
   JStr ''b1'' \<noteq> JUndefined \<and> isArray (JArr []) \<and>
   lookup sample_pool_changes ''addedTxs'' = JArr sample_prefix_entries \<and>
   list_all not_nullish sample_prefix_entries \<and>
   fst (poolChanges 0 (JStr ''b1'') (JArr [])
          (const_transport (JObj sample_pool_changes)) empty_world)
     = Resolved sample_pool_out \<and>
   valid_options empty_world (Val (JObj [(''blockHashes'', JArr [])])) \<and>
   lookup sample_blocks_lite ''items'' = JArr [JObj sample_lite_item, JObj sample_lite_item2] \<and>
   list_all lite_item_ok [JObj sample_lite_item, JObj sample_lite_item2] \<and>
   (\<exists>ys. fst (blocksLite 0 (Val (JObj [(''blockHashes'', JArr [])]))
                (const_transport (JObj sample_blocks_lite)) empty_world)
           = Resolved (JObj (AList.update ''items'' (JArr ys) sample_blocks_lite)) \<and>
         list_all2 lite_rewritten [JObj sample_lite_item, JObj sample_lite_item2] ys) \<and>
   fst (blocksLite 0 (Val (JObj [(''blockHashes'', JArr [])]))
          (const_transport (JObj sample_blocks_lite)) empty_world)
     = Resolved sample_blocks_lite_out \<and>
   list_all2 lite_rewritten [JObj sample_lite_item, JObj sample_lite_item2]
     [sample_lite_out, sample_lite_out2]"
proof -
  have a1: "isArray (JArr [JStr ''b1''])" by simp
  have a2: "\<not> (truthy JUndefined \<and> isNaN JUndefined)" by simp
  have a3: "JObj [(''blocks'', lookup sample_raw_blocks ''response.blocks''),
                  (''current_height'', lookup sample_raw_blocks ''response.current_height''),
                  (''start_height'', lookup sample_raw_blocks ''response.start_height''),
                  (''status'', lookup sample_raw_blocks ''response.status'')]
              = sample_raw_blocks_out" by code_simp
  have b1: "JStr ''b1'' \<noteq> JUndefined" by simp
  have b2: "isArray (JArr [])" by simp
  have b3: "lookup sample_pool_changes ''addedTxs'' = JArr sample_prefix_entries" by code_simp
  have b4: "list_all not_nullish sample_prefix_entries" by code_simp
  have b5: "JObj (AList.update ''addedTxs'' (JArr (map paired sample_prefix_entries))
                    sample_pool_changes) = sample_pool_out" by code_simp
  have c1: "valid_options empty_world (Val (JObj [(''blockHashes'', JArr [])]))" by code_simp
  have c2: "lookup sample_blocks_lite ''items''
              = JArr [JObj sample_lite_item, JObj sample_lite_item2]" by code_simp
  have c3: "list_all lite_item_ok [JObj sample_lite_item, JObj sample_lite_item2]" by code_simp
  note t = dotted_keys_rewritten [where hs = "JArr [JStr ''b1'']" and c = JUndefined
      and r = sample_raw_blocks and t = "JStr ''b1''" and k = "JArr []"
      and p = sample_pool_changes and xs = sample_prefix_entries
      and w = empty_world and opts = "Val (JObj [(''blockHashes'', JArr [])])"
      and l = sample_blocks_lite and zs = "[JObj sample_lite_item, JObj sample_lite_item2]"
      and this = 0]
  from t a1 a2 have "fst (rawBlocks 0 (JArr [JStr ''b1'']) JUndefined
          (const_transport (JObj sample_raw_blocks)) empty_world)
     = Resolved (JObj [(''blocks'', lookup sample_raw_blocks ''response.blocks''),
                  (''current_height'', lookup sample_raw_blocks ''response.current_height''),
                  (''start_height'', lookup sample_raw_blocks ''response.start_height''),
                  (''status'', lookup sample_raw_blocks ''response.status'')])" by blast
  then have 1: "fst (rawBlocks 0 (JArr [JStr ''b1'']) JUndefined
          (const_transport (JObj sample_raw_blocks)) empty_world)
     = Resolved sample_raw_blocks_out" unfolding a3 .
  from t b1 b2 b3 b4 have "fst (poolChanges 0 (JStr ''b1'') (JArr [])
          (const_transport (JObj sample_pool_changes)) empty_world)
     = Resolved (JObj (AList.update ''addedTxs'' (JArr (map paired sample_prefix_entries))
                    sample_pool_changes))" by blast
  then have 2: "fst (poolChanges 0 (JStr ''b1'') (JArr [])
          (const_transport (JObj sample_pool_changes)) empty_world)
     = Resolved sample_pool_out" unfolding b5 .
  from t c1 c2 c3 have 3:
    "\<exists>ys. fst (blocksLite 0 (Val (JObj [(''blockHashes'', JArr [])]))
                (const_transport (JObj sample_blocks_lite)) empty_world)
           = Resolved (JObj (AList.update ''items'' (JArr ys) sample_blocks_lite)) \<and>
         list_all2 lite_rewritten [JObj sample_lite_item, JObj sample_lite_item2] ys" by blast
  have 4: "fst (blocksLite 0 (Val (JObj [(''blockHashes'', JArr [])]))
          (const_transport (JObj sample_blocks_lite)) empty_world)
     = Resolved sample_blocks_lite_out" by code_simp
  have 5: "list_all2 lite_rewritten [JObj sample_lite_item, JObj sample_lite_item2]
     [sample_lite_out, sample_lite_out2]" by code_simp
  from a1 a2 1 b1 b2 b3 b4 2 c1 c2 c3 3 4 5 show ?thesis by (intro conjI)
qed



section \<open>The empty key of a transaction\<close>

lemma lookup_Some: "lookup kv k = v \<Longrightarrow> v \<noteq> JUndefined \<Longrightarrow> map_of kv k = Some v"
  by (auto simp: lookup_def split: option.splits)

lemma lookup_absent: "k \<notin> set (map fst kv) \<Longrightarrow> lookup kv k = JUndefined"
proof -
  assume "k \<notin> set (map fst kv)"
  then have "map_of kv k = None" by (simp add: map_of_eq_None_iff)
  then show ?thesis by (simp add: lookup_def)
qed

lemma transaction_response_strip:
  assumes "lookup rkv ''tx'' = JObj tkv" and "truthy (lookup tkv [])"
  shows "transaction_response (JObj rkv) =
           Inr (JObj (AList.update ''tx'' (JObj (AList.delete [] tkv)) rkv))"
  using assms by (simp add: transaction_response_def delete_tx_empty_def)

lemma transaction_response_keep:
  assumes "lookup rkv ''tx'' = JObj tkv" and "\<not> truthy (lookup tkv [])"
  shows "transaction_response (JObj rkv) = Inr (JObj rkv)"
  using assms by (simp add: transaction_response_def)

lemma transaction_response_no_tx:
  assumes "\<not> truthy (lookup rkv ''tx'')"
  shows "transaction_response (JObj rkv) = Inr (JObj rkv)"
  using assms by (simp add: transaction_response_def)

lemma fst_transaction:
  assumes "truthy h" and "\<not> truthy (lookup env ''error'')" and "lookup env ''result'' = r"
  shows "fst (transaction this h (const_transport (JObj env)) w) =
           (case transaction_response r of Inl e \<Rightarrow> Rejected e | Inr v \<Rightarrow> Resolved v)"
  using assms
  by (simp add: transaction_def fst_andThen_Resolved fst_post_const post_response_obj)

text \<open>
  C8, as stated, fails: a \<^verbatim>\<open>tx\<close> object that holds the empty string under the empty key
  is returned with that key.
\<close>

theorem transaction_falsy_empty_key_counterexample:
  "[] \<in> set (keys_of (JObj sample_tx_falsy)) \<and>
   fst (transaction 0 (JStr ''ab'')
          (const_transport (JObj [(''result'', JObj sample_tx_falsy_result)])) empty_world)
     = Resolved (JObj sample_tx_falsy_result) \<and>
   field_of (JObj sample_tx_falsy_result) ''tx'' = JObj sample_tx_falsy"
  by code_simp

text \<open>
  C8, amended. For a successful response whose \<^verbatim>\<open>tx\<close> is an object: when \<^verbatim>\<open>tx\<close> holds a
  truthy value under the empty key, the result is the response with the \<^verbatim>\<open>tx\<close> object
  replaced by its entries under the other keys, in their order; the empty key is gone, the
  other keys of \<^verbatim>\<open>tx\<close> and every other key of the response keep their values, and the
  response keeps its keys. When \<^verbatim>\<open>tx\<close> has no empty key, the response is returned as it
  is.
\<close>

theorem transaction_strips_empty_key:
  assumes "truthy h" and "\<not> truthy (lookup env ''error'')"
    and "lookup env ''result'' = JObj rkv" and "lookup rkv ''tx'' = JObj tkv"
  shows "(truthy (lookup tkv []) \<longrightarrow>
            fst (transaction this h (const_transport (JObj env)) w) =
              Resolved (JObj (AList.update ''tx'' (JObj (filter (\<lambda>p. fst p \<noteq> []) tkv)) rkv)) \<and>
            [] \<notin> set (map fst (filter (\<lambda>p. fst p \<noteq> []) tkv)) \<and>
            (\<forall>k. k \<noteq> [] \<longrightarrow> map_of (filter (\<lambda>p. fst p \<noteq> []) tkv) k = map_of tkv k) \<and>
            map fst (AList.update ''tx'' (JObj (filter (\<lambda>p. fst p \<noteq> []) tkv)) rkv) = map fst rkv \<and>
            (\<forall>k. k \<noteq> ''tx'' \<longrightarrow>
               map_of (AList.update ''tx'' (JObj (filter (\<lambda>p. fst p \<noteq> []) tkv)) rkv) k
                 = map_of rkv k)) \<and>
         ([] \<notin> set (map fst tkv) \<longrightarrow>
            fst (transaction this h (const_transport (JObj env)) w) = Resolved (JObj rkv))"
proof -
  have d: "AList.delete [] tkv = filter (\<lambda>p. fst p \<noteq> []) tkv"
    by (auto simp: AList.delete_eq intro: filter_cong)
  have tx: "''tx'' \<in> fst ` set rkv"
    using lookup_Some[OF assms(4)] by (auto dest: map_of_SomeD intro: rev_image_eqI)
  have 1: "truthy (lookup tkv []) \<Longrightarrow>
            fst (transaction this h (const_transport (JObj env)) w) =
              Resolved (JObj (AList.update ''tx'' (JObj (filter (\<lambda>p. fst p \<noteq> []) tkv)) rkv))"
    using assms by (simp add: fst_transaction transaction_response_strip d)
  have 2: "[] \<notin> set (map fst (filter (\<lambda>p. fst p \<noteq> []) tkv))" by auto
  have 3: "\<forall>k. k \<noteq> [] \<longrightarrow> map_of (filter (\<lambda>p. fst p \<noteq> []) tkv) k = map_of tkv k"
    unfolding d[symmetric] by simp
  have 4: "map fst (AList.update ''tx'' (JObj (filter (\<lambda>p. fst p \<noteq> []) tkv)) rkv) = map fst rkv"
    using tx by (simp add: update_keys)
  have 5: "\<forall>k. k \<noteq> ''tx'' \<longrightarrow>
               map_of (AList.update ''tx'' (JObj (filter (\<lambda>p. fst p \<noteq> []) tkv)) rkv) k
                 = map_of rkv k"
    by (simp add: update_conv')
  have 6: "[] \<notin> set (map fst tkv) \<Longrightarrow>
            fst (transaction this h (const_transport (JObj env)) w) = Resolved (JObj rkv)"
    using assms by (simp add: fst_transaction transaction_response_keep lookup_absent)
  from 1 2 3 4 5 6 show ?thesis by blast
qed

theorem transaction_strips_empty_key_witness:
  "truthy (JStr ''ab'') \<and>
   \<not> truthy (lookup [(''result'', JObj sample_tx_result)] ''error'') \<and>
   lookup [(''result'', JObj sample_tx_result)] ''result'' = JObj sample_tx_result \<and>
   lookup sample_tx_result ''tx'' = JObj sample_tx \<and>
   truthy (lookup sample_tx []) \<and>
   fst (transaction 0 (JStr ''ab'')
          (const_transport (JObj [(''result'', JObj sample_tx_result)])) empty_world)
     = Resolved (JObj sample_tx_plain_result) \<and>
   \<not> truthy (lookup [(''result'', JObj sample_tx_plain_result)] ''error'') \<and>
   lookup [(''result'', JObj sample_tx_plain_result)] ''result'' = JObj sample_tx_plain_result \<and>
   lookup sample_tx_plain_result ''tx'' = JObj sample_tx_plain \<and>
   [] \<notin> set (map fst sample_tx_plain) \<and>
   fst (transaction 0 (JStr ''ab'')
          (const_transport (JObj [(''result'', JObj sample_tx_plain_result)])) empty_world)
     = Resolved (JObj sample_tx_plain_result)"
proof -
  have h: "truthy (JStr ''ab'')" by code_simp
  have a1: "\<not> truthy (lookup [(''result'', JObj sample_tx_result)] ''error'')" by code_simp
  have a2: "lookup [(''result'', JObj sample_tx_result)] ''result'' = JObj sample_tx_result"
    by code_simp
  have a3: "lookup sample_tx_result ''tx'' = JObj sample_tx" by code_simp
  have a4: "truthy (lookup sample_tx [])" by code_simp
  have a5: "AList.update ''tx'' (JObj (filter (\<lambda>p. fst p \<noteq> []) sample_tx)) sample_tx_result
              = sample_tx_plain_result" by code_simp
  have b1: "\<not> truthy (lookup [(''result'', JObj sample_tx_plain_result)] ''error'')" by code_simp
  have b2: "lookup [(''result'', JObj sample_tx_plain_result)] ''result''
              = JObj sample_tx_plain_result" by code_simp
  have b3: "lookup sample_tx_plain_result ''tx'' = JObj sample_tx_plain" by code_simp
  have b4: "[] \<notin> set (map fst sample_tx_plain)" by code_simp
  from transaction_strips_empty_key [OF h a1 a2 a3, of 0 empty_world] a4 a5
  have 1: "fst (transaction 0 (JStr ''ab'')
          (const_transport (JObj [(''result'', JObj sample_tx_result)])) empty_world)
     = Resolved (JObj sample_tx_plain_result)" by simp
  from transaction_strips_empty_key [OF h b1 b2 b3, of 0 empty_world] b4
  have 2: "fst (transaction 0 (JStr ''ab'')
          (const_transport (JObj [(''result'', JObj sample_tx_plain_result)])) empty_world)
     = Resolved (JObj sample_tx_plain_result)" by blast
  from h a1 a2 a3 a4 1 b1 b2 b3 b4 2 show ?thesis by (intro conjI)
qed

section \<open>Defaults written into the caller's options object\<close>

lemma sent_set_field [simp]: "sent (set_field a k v w) = sent w"
  by (simp add: set_field_def)

lemma default_field_Ref: "default_field (Ref a) k d w = Inr (with_default a k d w)"
  by (simp add: default_field_def with_default_def arg_get_def arg_set_def)

lemma default_falsy_field_Ref:
  "default_falsy_field (Ref a) k d w = Inr (with_default_falsy a k d w)"
  by (simp add: default_falsy_field_def with_default_falsy_def arg_get_def arg_set_def)

lemma field_with_default:
  "field (with_default a k d w) b k' =
     (if b = a \<and> k' = k \<and> field w a k = JUndefined then d else field w b k')"
  by (simp add: with_default_def field_set_field)

lemma field_with_default_falsy:
  "field (with_default_falsy a k d w) b k' =
     (if b = a \<and> k' = k \<and> \<not> truthy (field w a k) then d else field w b k')"
  by (simp add: with_default_falsy_def field_set_field)

lemma sent_with_default [simp]: "sent (with_default a k d w) = sent w"
  by (simp add: with_default_def)

lemma sent_with_default_falsy [simp]: "sent (with_default_falsy a k d w) = sent w"
  by (simp add: with_default_falsy_def)

lemma snd_rawPost:
  "e \<noteq> [] \<Longrightarrow> b \<noteq> JUndefined \<Longrightarrow>
   snd (rpc_rawPost this e b tr w) = w\<lparr>sent := sent w @ [mk_request w this ''POST'' e (Some b)]\<rparr>"
  by (simp add: rpc_rawPost_def send_def)

lemma field_sent_update [simp]: "field (w\<lparr>sent := s\<rparr>) a k = field w a k"
  by (simp add: field_def)

lemma body_mk_request [simp]: "body (mk_request w this v p b) = b"
  by (simp add: mk_request_def)

text \<open>The world after each of the three methods, called with a reference to an object.\<close>

lemma snd_blocksDetailed_Ref:
  assumes "isArray (field w a ''blockHashes'')"
  shows "snd (blocksDetailed this (Ref a) tr w) =
     (let w2 = with_default a ''blockCount'' (JNum 100) (with_default a ''timestamp'' (JNum 0) w)
      in w2\<lparr>sent := sent w @
           [mk_request w2 this ''POST'' ''queryblocksdetailed''
              (Some (JObj [(''blockIds'', field w2 a ''blockHashes''),
                           (''timestamp'', field w2 a ''timestamp''),
                           (''blockCount'', field w2 a ''blockCount'')]))]\<rparr>)"
  using assms
  by (simp add: blocksDetailed_def or_empty_def default_field_Ref arg_get_def snd_rawPost Let_def)

lemma snd_blocksLite_Ref:
  assumes "isArray (field w a ''blockHashes'')"
  shows "snd (blocksLite this (Ref a) tr w) =
     (let w1 = with_default a ''timestamp'' (JNum 0) w
      in w1\<lparr>sent := sent w @
           [mk_request w1 this ''POST'' ''queryblockslite''
              (Some (JObj [(''blockIds'', field w1 a ''blockHashes''),
                           (''timestamp'', field w1 a ''timestamp'')]))]\<rparr>)"
  using assms
  by (simp add: blocksLite_def or_empty_def default_field_Ref arg_get_def snd_rawPost Let_def)

lemma snd_walletSyncData_Ref:
  "snd (walletSyncData this (Ref a) tr w) =
     (let w4 = with_default a ''skipCoinbaseTransactions'' (JBool False)
                (with_default_falsy a ''blockHashCheckpoints'' (JArr [])
                  (with_default a ''startTimestamp'' (JNum 0)
                    (with_default a ''startHeight'' (JNum 0) w)))
      in w4\<lparr>sent := sent w @
           [mk_request w4 this ''POST'' ''getwalletsyncdata''
              (Some (JObj [(''startHeight'', field w4 a ''startHeight''),
                           (''startTimestamp'', field w4 a ''startTimestamp''),
                           (''blockHashCheckpoints'', field w4 a ''blockHashCheckpoints''),
                           (''skipCoinbaseTransactions'',
                              field w4 a ''skipCoinbaseTransactions'')]))]\<rparr>)"
  by (simp add: walletSyncData_def or_empty_def default_field_Ref default_falsy_field_Ref
        arg_get_def snd_rawPost Let_def)

text \<open>
  C10. Called with a reference to the caller's options object, \<^verbatim>\<open>blocksDetailed\<close> and
  \<^verbatim>\<open>blocksLite\<close> (when the block hashes are an array, so that the call passes its
  argument check) and \<^verbatim>\<open>walletSyncData\<close> leave that object with the default in every
  listed property that was absent (a property that was there keeps its value), whatever
  the daemon answers, and the body of the one request they issue carries the properties
  of the object as they are after the call: \<^verbatim>\<open>timestamp\<close> 0 and \<^verbatim>\<open>blockCount\<close> 100 for
  \<^verbatim>\<open>blocksDetailed\<close>, \<^verbatim>\<open>timestamp\<close> 0 for \<^verbatim>\<open>blocksLite\<close>, \<^verbatim>\<open>startHeight\<close> 0,
  \<^verbatim>\<open>startTimestamp\<close> 0, \<^verbatim>\<open>blockHashCheckpoints\<close> the empty array (also in place of a
  falsy value) and \<^verbatim>\<open>skipCoinbaseTransactions\<close> false for \<^verbatim>\<open>walletSyncData\<close>.
\<close>

theorem options_defaults_written:
  "(isArray (field w a ''blockHashes'') \<longrightarrow>
      field (snd (blocksDetailed this (Ref a) tr w)) a ''timestamp''
        = (if field w a ''timestamp'' = JUndefined then JNum 0 else field w a ''timestamp'') \<and>
      field (snd (blocksDetailed this (Ref a) tr w)) a ''blockCount''
        = (if field w a ''blockCount'' = JUndefined then JNum 100 else field w a ''blockCount'') \<and>
      map body (sent (snd (blocksDetailed this (Ref a) tr w))) = map body (sent w) @
        [Some (JObj [(''blockIds'', field w a ''blockHashes''),
            (''timestamp'', field (snd (blocksDetailed this (Ref a) tr w)) a ''timestamp''),
            (''blockCount'', field (snd (blocksDetailed this (Ref a) tr w)) a ''blockCount'')])]) \<and>
   (isArray (field w a ''blockHashes'') \<longrightarrow>
      field (snd (blocksLite this (Ref a) tr w)) a ''timestamp''
        = (if field w a ''timestamp'' = JUndefined then JNum 0 else field w a ''timestamp'') \<and>
      map body (sent (snd (blocksLite this (Ref a) tr w))) = map body (sent w) @
        [Some (JObj [(''blockIds'', field w a ''blockHashes''),
            (''timestamp'', field (snd (blocksLite this (Ref a) tr w)) a ''timestamp'')])]) \<and>
   field (snd (walletSyncData this (Ref a) tr w)) a ''startHeight''
     = (if field w a ''startHeight'' = JUndefined then JNum 0 else field w a ''startHeight'') \<and>
   field (snd (walletSyncData this (Ref a) tr w)) a ''startTimestamp''
     = (if field w a ''startTimestamp'' = JUndefined then JNum 0
        else field w a ''startTimestamp'') \<and>
   field (snd (walletSyncData this (Ref a) tr w)) a ''blockHashCheckpoints''
     = (if truthy (field w a ''blockHashCheckpoints'') then field w a ''blockHashCheckpoints''
        else JArr []) \<and>
   field (snd (walletSyncData this (Ref a) tr w)) a ''skipCoinbaseTransactions''
     = (if field w a ''skipCoinbaseTransactions'' = JUndefined then JBool False
        else field w a ''skipCoinbaseTransactions'') \<and>
   map body (sent (snd (walletSyncData this (Ref a) tr w))) = map body (sent w) @
     [Some (JObj
        [(''startHeight'', field (snd (walletSyncData this (Ref a) tr w)) a ''startHeight''),
         (''startTimestamp'', field (snd (walletSyncData this (Ref a) tr w)) a ''startTimestamp''),
         (''blockHashCheckpoints'',
            field (snd (walletSyncData this (Ref a) tr w)) a ''blockHashCheckpoints''),
         (''skipCoinbaseTransactions'',
            field (snd (walletSyncData this (Ref a) tr w)) a ''skipCoinbaseTransactions'')])]"
proof -
  have d: "isArray (field w a ''blockHashes'') \<Longrightarrow>
      field (snd (blocksDetailed this (Ref a) tr w)) a ''timestamp''
        = (if field w a ''timestamp'' = JUndefined then JNum 0 else field w a ''timestamp'') \<and>
      field (snd (blocksDetailed this (Ref a) tr w)) a ''blockCount''
        = (if field w a ''blockCount'' = JUndefined then JNum 100 else field w a ''blockCount'') \<and>
      map body (sent (snd (blocksDetailed this (Ref a) tr w))) = map body (sent w) @
        [Some (JObj [(''blockIds'', field w a ''blockHashes''),
            (''timestamp'', field (snd (blocksDetailed this (Ref a) tr w)) a ''timestamp''),
            (''blockCount'', field (snd (blocksDetailed this (Ref a) tr w)) a ''blockCount'')])]"
    by (simp add: snd_blocksDetailed_Ref Let_def field_with_default)
  have l: "isArray (field w a ''blockHashes'') \<Longrightarrow>
      field (snd (blocksLite this (Ref a) tr w)) a ''timestamp''
        = (if field w a ''timestamp'' = JUndefined then JNum 0 else field w a ''timestamp'') \<and>
      map body (sent (snd (blocksLite this (Ref a) tr w))) = map body (sent w) @
        [Some (JObj [(''blockIds'', field w a ''blockHashes''),
            (''timestamp'', field (snd (blocksLite this (Ref a) tr w)) a ''timestamp'')])]"
    by (simp add: snd_blocksLite_Ref Let_def field_with_default)
  have s: "field (snd (walletSyncData this (Ref a) tr w)) a ''startHeight''
     = (if field w a ''startHeight'' = JUndefined then JNum 0 else field w a ''startHeight'')"
    "field (snd (walletSyncData this (Ref a) tr w)) a ''startTimestamp''
     = (if field w a ''startTimestamp'' = JUndefined then JNum 0
        else field w a ''startTimestamp'')"
    "field (snd (walletSyncData this (Ref a) tr w)) a ''blockHashCheckpoints''
     = (if truthy (field w a ''blockHashCheckpoints'') then field w a ''blockHashCheckpoints''
        else JArr [])"
    "field (snd (walletSyncData this (Ref a) tr w)) a ''skipCoinbaseTransactions''
     = (if field w a ''skipCoinbaseTransactions'' = JUndefined then JBool False
        else field w a ''skipCoinbaseTransactions'')"
    by (simp_all add: snd_walletSyncData_Ref Let_def field_with_default field_with_default_falsy)
  have b: "map body (sent (snd (walletSyncData this (Ref a) tr w))) = map body (sent w) @
     [Some (JObj
        [(''startHeight'', field (snd (walletSyncData this (Ref a) tr w)) a ''startHeight''),
         (''startTimestamp'', field (snd (walletSyncData this (Ref a) tr w)) a ''startTimestamp''),
         (''blockHashCheckpoints'',
            field (snd (walletSyncData this (Ref a) tr w)) a ''blockHashCheckpoints''),
         (''skipCoinbaseTransactions'',
            field (snd (walletSyncData this (Ref a) tr w)) a ''skipCoinbaseTransactions'')])]"
    by (simp add: snd_walletSyncData_Ref Let_def)
  from d l s b show ?thesis by blast
qed

theorem options_defaults_written_witness:
  "isArray (field caller_world 2 ''blockHashes'') \<and>
   heap caller_world 2 = [(''blockHashes'', JArr [JStr ''b1''])] \<and>
   field (snd (blocksDetailed 1 (Ref 2) (const_transport JNull) caller_world)) 2 ''timestamp''
     = JNum 0 \<and>
   field (snd (blocksDetailed 1 (Ref 2) (const_transport JNull) caller_world)) 2 ''blockCount''
     = JNum 100 \<and>
   field (snd (blocksLite 1 (Ref 2) (const_transport JNull) caller_world)) 2 ''timestamp''
     = JNum 0 \<and>
   field (snd (walletSyncData 1 (Ref 2) (const_transport JNull) caller_world)) 2 ''startHeight''
     = JNum 0 \<and>
   field (snd (walletSyncData 1 (Ref 2) (const_transport JNull) caller_world)) 2
     ''blockHashCheckpoints'' = JArr [] \<and>
   field (snd (walletSyncData 1 (Ref 2) (const_transport JNull) caller_world)) 2
     ''skipCoinbaseTransactions'' = JBool False \<and>
   heap (snd (blocksDetailed 1 (Ref 2) (const_transport JNull) caller_world)) 2
     = [(''blockHashes'', JArr [JStr ''b1'']), (''timestamp'', JNum 0), (''blockCount'', JNum 100)]"
proof -
  have h: "isArray (field caller_world 2 ''blockHashes'')" by code_simp
  have o: "heap caller_world 2 = [(''blockHashes'', JArr [JStr ''b1''])]" by code_simp
  have u: "field caller_world 2 ''timestamp'' = JUndefined"
    "field caller_world 2 ''blockCount'' = JUndefined"
    "field caller_world 2 ''startHeight'' = JUndefined"
    "field caller_world 2 ''blockHashCheckpoints'' = JUndefined"
    "field caller_world 2 ''skipCoinbaseTransactions'' = JUndefined"
    by code_simp+
  note t = options_defaults_written [of caller_world 2 1 "const_transport JNull"]
  from t h u(1) have 1:
    "field (snd (blocksDetailed 1 (Ref 2) (const_transport JNull) caller_world)) 2 ''timestamp''
       = JNum 0" by simp
  from t h u(2) have 2:
    "field (snd (blocksDetailed 1 (Ref 2) (const_transport JNull) caller_world)) 2 ''blockCount''
       = JNum 100" by simp
  from t h u(1) have 3:
    "field (snd (blocksLite 1 (Ref 2) (const_transport JNull) caller_world)) 2 ''timestamp''
       = JNum 0" by simp
  from t u(3) have 4:
    "field (snd (walletSyncData 1 (Ref 2) (const_transport JNull) caller_world)) 2 ''startHeight''
       = JNum 0" by simp
  from t u(4) have 5:
    "field (snd (walletSyncData 1 (Ref 2) (const_transport JNull) caller_world)) 2
       ''blockHashCheckpoints'' = JArr []" by simp
  from t u(5) have 6:
    "field (snd (walletSyncData 1 (Ref 2) (const_transport JNull) caller_world)) 2
       ''skipCoinbaseTransactions'' = JBool False" by simp
  have 7: "heap (snd (blocksDetailed 1 (Ref 2) (const_transport JNull) caller_world)) 2
     = [(''blockHashes'', JArr [JStr ''b1'']), (''timestamp'', JNum 0), (''blockCount'', JNum 100)]"
    by code_simp
  from h o 1 2 3 4 5 6 7 show ?thesis by (intro conjI)
qed

end
